theory Spec2Isabelle
  imports Main
begin

section \<open>Page Rules client (pagerules.go)\<close>

text \<open>
  The file under verification is \<^verbatim>\<open>pagerules.go\<close> of the Go package
  \<^verbatim>\<open>cloudflare\<close>: the data types of a Page Rule, the decoder
  \<^verbatim>\<open>MaybeInt.UnmarshalJSON\<close> and six operations that each make one call to
  \<^verbatim>\<open>api.makeRequest\<close> and decode the answer with \<^verbatim>\<open>json.Unmarshal\<close>.

  Go strings and byte slices are lists of 8-bit characters (\<^typ>\<open>string\<close>). Go's
  \<^verbatim>\<open>int\<close> is the 64-bit one. An \<^verbatim>\<open>error\<close> result is an
  \<^typ>\<open>'a option\<close>: \<^term>\<open>None\<close> is Go's \<^verbatim>\<open>nil\<close>.
\<close>

subsection \<open>Errors\<close>

text \<open>
  The errors that can reach a caller: the two of \<^verbatim>\<open>encoding/json\<close>
  (\<^verbatim>\<open>*SyntaxError\<close> with the context of its message,
  \<^verbatim>\<open>*UnmarshalTypeError\<close> with its \<^verbatim>\<open>Value\<close> field), the two of
  \<^verbatim>\<open>strconv\<close>, an error of the transport (opaque to this file), and
  \<^verbatim>\<open>errors.Wrap(err, message)\<close> of \<^verbatim>\<open>github.com/pkg/errors\<close>, which
  keeps the cause under the message. A Go panic is the outcome \<open>Panic\<close>.
\<close>

datatype error =
    SyntaxError string
  | UnmarshalTypeError string
  | ErrSyntax
  | ErrRange
  | TransportError string
  | Wrap error string
  | Panic string

subsection \<open>The scanner of encoding/json\<close>

text \<open>
  \<^verbatim>\<open>json.Unmarshal\<close> first runs \<^verbatim>\<open>checkValid\<close>: a state machine that
  reads the input one byte at a time (scanner.go). A state is the function stored in
  \<^verbatim>\<open>s.step\<close>; \<^verbatim>\<open>s.parseState\<close> is the stack of the open objects
  and arrays, the innermost last.
\<close>

datatype opcode =
    scanContinue | scanBeginLiteral | scanBeginObject | scanObjectKey
  | scanObjectValue | scanEndObject | scanBeginArray | scanArrayValue
  | scanEndArray | scanSkipSpace | scanEnd | scanError

datatype parse_state = parseObjectKey | parseObjectValue | parseArrayValue

datatype step_fn =
    StateBeginValueOrEmpty | StateBeginValue | StateBeginStringOrEmpty
  | StateBeginString | StateEndValue | StateEndTop
  | StateInString | StateInStringEsc | StateInStringEscU | StateInStringEscU1
  | StateInStringEscU12 | StateInStringEscU123
  | StateNeg | State1 | State0 | StateDot | StateDot0 | StateE | StateESign | StateE0
  | StateT | StateTr | StateTru | StateF | StateFa | StateFal | StateFals
  | StateN | StateNu | StateNul | StateError

record scanner =
  step :: step_fn
  endTop :: bool
  parseState :: "parse_state list"
  err :: "error option"

definition maxNestingDepth :: nat where
  "maxNestingDepth = 10000"

definition reset :: scanner where
  "reset = \<lparr>step = StateBeginValue, endTop = False, parseState = [], err = None\<rparr>"

definition isSpace :: "char \<Rightarrow> bool" where
  "isSpace c = (c = CHR '' '' \<or> c = CHR 0x09 \<or> c = CHR 0x0D \<or> c = CHR 0x0A)"

definition isDigit :: "char \<Rightarrow> bool" where
  "isDigit c = (48 \<le> (of_char c :: nat) \<and> (of_char c :: nat) \<le> 57)"

definition isDigit19 :: "char \<Rightarrow> bool" where
  "isDigit19 c = (49 \<le> (of_char c :: nat) \<and> (of_char c :: nat) \<le> 57)"

definition isHex :: "char \<Rightarrow> bool" where
  "isHex c = (isDigit c
     \<or> 97 \<le> (of_char c :: nat) \<and> (of_char c :: nat) \<le> 102
     \<or> 65 \<le> (of_char c :: nat) \<and> (of_char c :: nat) \<le> 70)"

definition scan_error :: "scanner \<Rightarrow> char \<Rightarrow> string \<Rightarrow> opcode \<times> scanner" where
  "scan_error s c context = (scanError, s\<lparr>step := StateError, err := Some (SyntaxError context)\<rparr>)"

definition pushParseState :: "scanner \<Rightarrow> char \<Rightarrow> parse_state \<Rightarrow> opcode \<Rightarrow> opcode \<times> scanner" where
  "pushParseState s c newParseState successState =
     (let s1 = s\<lparr>parseState := parseState s @ [newParseState]\<rparr> in
      if length (parseState s1) \<le> maxNestingDepth then (successState, s1)
      else scan_error s1 c ''exceeded max depth'')"

definition popParseState :: "scanner \<Rightarrow> scanner" where
  "popParseState s =
     (let ps = butlast (parseState s) in
      if length ps = 0 then s\<lparr>parseState := ps, step := StateEndTop, endTop := True\<rparr>
      else s\<lparr>parseState := ps, step := StateEndValue\<rparr>)"

definition stateEndTop :: "scanner \<Rightarrow> char \<Rightarrow> opcode \<times> scanner" where
  "stateEndTop s c =
     (if \<not> isSpace c then (scanEnd, snd (scan_error s c ''after top-level value''))
      else (scanEnd, s))"

definition stateEndValue :: "scanner \<Rightarrow> char \<Rightarrow> opcode \<times> scanner" where
  "stateEndValue s c =
     (if length (parseState s) = 0 then stateEndTop (s\<lparr>step := StateEndTop, endTop := True\<rparr>) c
      else if isSpace c then (scanSkipSpace, s\<lparr>step := StateEndValue\<rparr>)
      else (case last (parseState s) of
          parseObjectKey \<Rightarrow>
            if c = CHR '':'' then
              (scanObjectKey,
               s\<lparr>parseState := butlast (parseState s) @ [parseObjectValue], step := StateBeginValue\<rparr>)
            else scan_error s c ''after object key''
        | parseObjectValue \<Rightarrow>
            if c = CHR '','' then
              (scanObjectValue,
               s\<lparr>parseState := butlast (parseState s) @ [parseObjectKey], step := StateBeginString\<rparr>)
            else if c = CHR ''}'' then (scanEndObject, popParseState s)
            else scan_error s c ''after object key:value pair''
        | parseArrayValue \<Rightarrow>
            if c = CHR '','' then (scanArrayValue, s\<lparr>step := StateBeginValue\<rparr>)
            else if c = CHR '']'' then (scanEndArray, popParseState s)
            else scan_error s c ''after array element''))"

definition stateBeginValue :: "scanner \<Rightarrow> char \<Rightarrow> opcode \<times> scanner" where
  "stateBeginValue s c =
     (if isSpace c then (scanSkipSpace, s)
      else if c = CHR ''{'' then
        pushParseState (s\<lparr>step := StateBeginStringOrEmpty\<rparr>) c parseObjectKey scanBeginObject
      else if c = CHR ''['' then
        pushParseState (s\<lparr>step := StateBeginValueOrEmpty\<rparr>) c parseArrayValue scanBeginArray
      else if c = CHR 0x22 then (scanBeginLiteral, s\<lparr>step := StateInString\<rparr>)
      else if c = CHR ''-'' then (scanBeginLiteral, s\<lparr>step := StateNeg\<rparr>)
      else if c = CHR ''0'' then (scanBeginLiteral, s\<lparr>step := State0\<rparr>)
      else if c = CHR ''t'' then (scanBeginLiteral, s\<lparr>step := StateT\<rparr>)
      else if c = CHR ''f'' then (scanBeginLiteral, s\<lparr>step := StateF\<rparr>)
      else if c = CHR ''n'' then (scanBeginLiteral, s\<lparr>step := StateN\<rparr>)
      else if isDigit19 c then (scanBeginLiteral, s\<lparr>step := State1\<rparr>)
      else scan_error s c ''looking for beginning of value'')"

definition stateBeginValueOrEmpty :: "scanner \<Rightarrow> char \<Rightarrow> opcode \<times> scanner" where
  "stateBeginValueOrEmpty s c =
     (if isSpace c then (scanSkipSpace, s)
      else if c = CHR '']'' then stateEndValue s c
      else stateBeginValue s c)"

definition stateBeginString :: "scanner \<Rightarrow> char \<Rightarrow> opcode \<times> scanner" where
  "stateBeginString s c =
     (if isSpace c then (scanSkipSpace, s)
      else if c = CHR 0x22 then (scanBeginLiteral, s\<lparr>step := StateInString\<rparr>)
      else scan_error s c ''looking for beginning of object key string'')"

definition stateBeginStringOrEmpty :: "scanner \<Rightarrow> char \<Rightarrow> opcode \<times> scanner" where
  "stateBeginStringOrEmpty s c =
     (if isSpace c then (scanSkipSpace, s)
      else if c = CHR ''}'' then
        stateEndValue (s\<lparr>parseState := butlast (parseState s) @ [parseObjectValue]\<rparr>) c
      else stateBeginString s c)"

definition stateInString :: "scanner \<Rightarrow> char \<Rightarrow> opcode \<times> scanner" where
  "stateInString s c =
     (if c = CHR 0x22 then (scanContinue, s\<lparr>step := StateEndValue\<rparr>)
      else if c = CHR 0x5C then (scanContinue, s\<lparr>step := StateInStringEsc\<rparr>)
      else if (of_char c :: nat) < 0x20 then scan_error s c ''in string literal''
      else (scanContinue, s))"

definition stateInStringEsc :: "scanner \<Rightarrow> char \<Rightarrow> opcode \<times> scanner" where
  "stateInStringEsc s c =
     (if c \<in> set [CHR ''b'', CHR ''f'', CHR ''n'', CHR ''r'', CHR ''t'', CHR 0x5C, CHR ''/'', CHR 0x22]
      then (scanContinue, s\<lparr>step := StateInString\<rparr>)
      else if c = CHR ''u'' then (scanContinue, s\<lparr>step := StateInStringEscU\<rparr>)
      else scan_error s c ''in string escape code'')"

definition stateInStringEscU :: "step_fn \<Rightarrow> scanner \<Rightarrow> char \<Rightarrow> opcode \<times> scanner" where
  "stateInStringEscU next s c =
     (if isHex c then (scanContinue, s\<lparr>step := next\<rparr>)
      else scan_error s c (''in '' @ [CHR 0x5C] @ ''u hexadecimal character escape''))"

definition stateESign :: "scanner \<Rightarrow> char \<Rightarrow> opcode \<times> scanner" where
  "stateESign s c =
     (if isDigit c then (scanContinue, s\<lparr>step := StateE0\<rparr>)
      else scan_error s c ''in exponent of numeric literal'')"

definition stateE :: "scanner \<Rightarrow> char \<Rightarrow> opcode \<times> scanner" where
  "stateE s c =
     (if c = CHR ''+'' \<or> c = CHR ''-'' then (scanContinue, s\<lparr>step := StateESign\<rparr>)
      else stateESign s c)"

definition stateE0 :: "scanner \<Rightarrow> char \<Rightarrow> opcode \<times> scanner" where
  "stateE0 s c = (if isDigit c then (scanContinue, s) else stateEndValue s c)"

definition stateDot :: "scanner \<Rightarrow> char \<Rightarrow> opcode \<times> scanner" where
  "stateDot s c =
     (if isDigit c then (scanContinue, s\<lparr>step := StateDot0\<rparr>)
      else scan_error s c ''after decimal point in numeric literal'')"

definition stateDot0 :: "scanner \<Rightarrow> char \<Rightarrow> opcode \<times> scanner" where
  "stateDot0 s c =
     (if isDigit c then (scanContinue, s)
      else if c = CHR ''e'' \<or> c = CHR ''E'' then (scanContinue, s\<lparr>step := StateE\<rparr>)
      else stateEndValue s c)"

definition state0 :: "scanner \<Rightarrow> char \<Rightarrow> opcode \<times> scanner" where
  "state0 s c =
     (if c = CHR ''.'' then (scanContinue, s\<lparr>step := StateDot\<rparr>)
      else if c = CHR ''e'' \<or> c = CHR ''E'' then (scanContinue, s\<lparr>step := StateE\<rparr>)
      else stateEndValue s c)"

definition state1 :: "scanner \<Rightarrow> char \<Rightarrow> opcode \<times> scanner" where
  "state1 s c = (if isDigit c then (scanContinue, s\<lparr>step := State1\<rparr>) else state0 s c)"

definition stateNeg :: "scanner \<Rightarrow> char \<Rightarrow> opcode \<times> scanner" where
  "stateNeg s c =
     (if c = CHR ''0'' then (scanContinue, s\<lparr>step := State0\<rparr>)
      else if isDigit19 c then (scanContinue, s\<lparr>step := State1\<rparr>)
      else scan_error s c ''in numeric literal'')"

text \<open>
  The states inside \<^verbatim>\<open>true\<close>, \<^verbatim>\<open>false\<close> and \<^verbatim>\<open>null\<close>
  each expect one letter and name the state that follows.
\<close>

definition stateLetter :: "char \<Rightarrow> step_fn \<Rightarrow> string \<Rightarrow> scanner \<Rightarrow> char \<Rightarrow> opcode \<times> scanner" where
  "stateLetter expected next context s c =
     (if c = expected then (scanContinue, s\<lparr>step := next\<rparr>) else scan_error s c context)"

definition scan_step :: "scanner \<Rightarrow> char \<Rightarrow> opcode \<times> scanner" where
  "scan_step s c =
     (case step s of
        StateBeginValueOrEmpty \<Rightarrow> stateBeginValueOrEmpty s c
      | StateBeginValue \<Rightarrow> stateBeginValue s c
      | StateBeginStringOrEmpty \<Rightarrow> stateBeginStringOrEmpty s c
      | StateBeginString \<Rightarrow> stateBeginString s c
      | StateEndValue \<Rightarrow> stateEndValue s c
      | StateEndTop \<Rightarrow> stateEndTop s c
      | StateInString \<Rightarrow> stateInString s c
      | StateInStringEsc \<Rightarrow> stateInStringEsc s c
      | StateInStringEscU \<Rightarrow> stateInStringEscU StateInStringEscU1 s c
      | StateInStringEscU1 \<Rightarrow> stateInStringEscU StateInStringEscU12 s c
      | StateInStringEscU12 \<Rightarrow> stateInStringEscU StateInStringEscU123 s c
      | StateInStringEscU123 \<Rightarrow> stateInStringEscU StateInString s c
      | StateNeg \<Rightarrow> stateNeg s c
      | State1 \<Rightarrow> state1 s c
      | State0 \<Rightarrow> state0 s c
      | StateDot \<Rightarrow> stateDot s c
      | StateDot0 \<Rightarrow> stateDot0 s c
      | StateE \<Rightarrow> stateE s c
      | StateESign \<Rightarrow> stateESign s c
      | StateE0 \<Rightarrow> stateE0 s c
      | StateT \<Rightarrow> stateLetter (CHR ''r'') StateTr ''in literal true (expecting 'r')'' s c
      | StateTr \<Rightarrow> stateLetter (CHR ''u'') StateTru ''in literal true (expecting 'u')'' s c
      | StateTru \<Rightarrow> stateLetter (CHR ''e'') StateEndValue ''in literal true (expecting 'e')'' s c
      | StateF \<Rightarrow> stateLetter (CHR ''a'') StateFa ''in literal false (expecting 'a')'' s c
      | StateFa \<Rightarrow> stateLetter (CHR ''l'') StateFal ''in literal false (expecting 'l')'' s c
      | StateFal \<Rightarrow> stateLetter (CHR ''s'') StateFals ''in literal false (expecting 's')'' s c
      | StateFals \<Rightarrow> stateLetter (CHR ''e'') StateEndValue ''in literal false (expecting 'e')'' s c
      | StateN \<Rightarrow> stateLetter (CHR ''u'') StateNu ''in literal null (expecting 'u')'' s c
      | StateNu \<Rightarrow> stateLetter (CHR ''l'') StateNul ''in literal null (expecting 'l')'' s c
      | StateNul \<Rightarrow> stateLetter (CHR ''l'') StateEndValue ''in literal null (expecting 'l')'' s c
      | StateError \<Rightarrow> (scanError, s))"

definition eof :: "scanner \<Rightarrow> opcode \<times> scanner" where
  "eof s =
     (if err s \<noteq> None then (scanError, s)
      else if endTop s then (scanEnd, s)
      else (let s1 = snd (scan_step s (CHR '' '')) in
        if endTop s1 then (scanEnd, s1)
        else if err s1 = None then
          (scanError, s1\<lparr>err := Some (SyntaxError ''unexpected end of JSON input'')\<rparr>)
        else (scanError, s1)))"

fun checkValid_from :: "scanner \<Rightarrow> string \<Rightarrow> error option" where
  "checkValid_from s [] = (case eof s of (op, s1) \<Rightarrow> if op = scanError then err s1 else None)"
| "checkValid_from s (c # cs) =
     (case scan_step s c of (op, s1) \<Rightarrow> if op = scanError then err s1 else checkValid_from s1 cs)"

definition checkValid :: "string \<Rightarrow> error option" where
  "checkValid data = checkValid_from reset data"

subsection \<open>json.Unmarshal into a string and into an int\<close>

text \<open>
  \<^verbatim>\<open>json.Unmarshal(data, v)\<close> returns the error of \<^verbatim>\<open>checkValid\<close> if
  there is one. Otherwise \<^verbatim>\<open>d.unmarshal\<close> skips the leading space and
  \<^verbatim>\<open>d.value\<close> looks at the first byte of the value: an object or an array
  cannot be stored in a string or an int (\<^verbatim>\<open>d.object\<close>, \<^verbatim>\<open>d.array\<close>
  save an \<^verbatim>\<open>UnmarshalTypeError\<close>), and a literal goes to
  \<^verbatim>\<open>d.literalStore\<close>, where \<^verbatim>\<open>null\<close> leaves a string or an int as it
  is and returns no error.

  \<^verbatim>\<open>UnmarshalJSON\<close> below calls \<^verbatim>\<open>json.Unmarshal(rawData, &js)\<close> only to
  compare its error with \<^verbatim>\<open>nil\<close> and never reads \<^verbatim>\<open>js\<close>, so
  \<open>Unmarshal_string\<close> returns the error alone.
\<close>

definition Unmarshal_string :: "string \<Rightarrow> error option" where
  "Unmarshal_string data =
     (case checkValid data of
        Some e \<Rightarrow> Some e
      | None \<Rightarrow>
         (case dropWhile isSpace data of
            [] \<Rightarrow> Some (Panic ''JSON decoder out of sync - data changing underfoot?'')
          | c # cs \<Rightarrow>
              if c = CHR ''{'' then Some (UnmarshalTypeError ''object'')
              else if c = CHR ''['' then Some (UnmarshalTypeError ''array'')
              else if c = CHR ''n'' then None
              else if c = CHR ''t'' \<or> c = CHR ''f'' then Some (UnmarshalTypeError ''bool'')
              else if c = CHR 0x22 then None
              else Some (UnmarshalTypeError ''number'')))"

text \<open>
  \<^verbatim>\<open>strconv.ParseUint(s, 10, 64)\<close>: the loop over the bytes with its two overflow
  checks; \<^verbatim>\<open>n\<close> is a \<^verbatim>\<open>uint64\<close>, so the products and sums are taken
  modulo \<open>2 ^ 64\<close>. On a range error the value returned is \<^verbatim>\<open>maxVal\<close>.
\<close>

definition maxUint64 :: nat where
  "maxUint64 = 2 ^ 64 - 1"

fun ParseUint_loop :: "nat \<Rightarrow> string \<Rightarrow> nat \<times> error option" where
  "ParseUint_loop n [] = (n, None)"
| "ParseUint_loop n (c # cs) =
     (if \<not> isDigit c then (0, Some ErrSyntax)
      else if n \<ge> maxUint64 div 10 + 1 then (maxUint64, Some ErrRange)
      else (let n10 = (n * 10) mod 2 ^ 64;
                n1 = (n10 + (of_char c - 48)) mod 2 ^ 64
            in if n1 < n10 \<or> n1 > maxUint64 then (maxUint64, Some ErrRange)
               else ParseUint_loop n1 cs))"

definition ParseUint :: "string \<Rightarrow> nat \<times> error option" where
  "ParseUint s = (if s = [] then (0, Some ErrSyntax) else ParseUint_loop 0 s)"

text \<open>\<^verbatim>\<open>strconv.ParseInt(s, 10, 64)\<close>.\<close>

definition ParseInt :: "string \<Rightarrow> int \<times> error option" where
  "ParseInt s0 =
     (if s0 = [] then (0, Some ErrSyntax)
      else
        (let neg = (hd s0 = CHR ''-'');
             s = (if hd s0 = CHR ''+'' \<or> hd s0 = CHR ''-'' then tl s0 else s0);
             cutoff = (2 :: nat) ^ 63
         in case ParseUint s of
              (un, Some ErrSyntax) \<Rightarrow> (0, Some ErrSyntax)
            | (un, e) \<Rightarrow>
                if \<not> neg \<and> un \<ge> cutoff then (int cutoff - 1, Some ErrRange)
                else if neg \<and> un > cutoff then (- int cutoff, Some ErrRange)
                else (if neg then - int un else int un, None)))"

text \<open>
  \<^verbatim>\<open>reflect.Value.OverflowInt\<close> for the kind \<^verbatim>\<open>int\<close>, whose size is
  \<open>intSize\<close> bits.
\<close>

definition intSize :: nat where
  "intSize = 64"

definition OverflowInt :: "int \<Rightarrow> bool" where
  "OverflowInt x = (x < - (2 ^ (intSize - 1)) \<or> 2 ^ (intSize - 1) \<le> x)"

text \<open>
  \<^verbatim>\<open>d.rescanLiteral\<close> for a number: the literal is its first byte and the bytes
  after it that can stand in a number.
\<close>

definition isNumberByte :: "char \<Rightarrow> bool" where
  "isNumberByte c = (isDigit c \<or> c = CHR ''.'' \<or> c = CHR ''e'' \<or> c = CHR ''E''
     \<or> c = CHR ''+'' \<or> c = CHR ''-'')"

definition rescanLiteral :: "char \<Rightarrow> string \<Rightarrow> string" where
  "rescanLiteral c cs = c # takeWhile isNumberByte cs"

text \<open>
  \<open>Unmarshal_int data v\<close> is \<^verbatim>\<open>json.Unmarshal(data, &v)\<close> for
  \<^verbatim>\<open>var v int\<close>: the error returned and the value of \<^verbatim>\<open>v\<close> afterwards.
\<close>

definition Unmarshal_int :: "string \<Rightarrow> int \<Rightarrow> error option \<times> int" where
  "Unmarshal_int data v =
     (case checkValid data of
        Some e \<Rightarrow> (Some e, v)
      | None \<Rightarrow>
         (case dropWhile isSpace data of
            [] \<Rightarrow> (Some (Panic ''JSON decoder out of sync - data changing underfoot?''), v)
          | c # cs \<Rightarrow>
              if c = CHR ''{'' then (Some (UnmarshalTypeError ''object''), v)
              else if c = CHR ''['' then (Some (UnmarshalTypeError ''array''), v)
              else if c = CHR ''n'' then (None, v)
              else if c = CHR ''t'' \<or> c = CHR ''f'' then (Some (UnmarshalTypeError ''bool''), v)
              else if c = CHR 0x22 then (Some (UnmarshalTypeError ''string''), v)
              else (let item = rescanLiteral c cs in
                    case ParseInt item of
                      (n, Some e) \<Rightarrow> (Some (UnmarshalTypeError (''number '' @ item)), v)
                    | (n, None) \<Rightarrow>
                        if OverflowInt n then (Some (UnmarshalTypeError (''number '' @ item)), v)
                        else (None, n))))"

subsection \<open>strconv.Unquote\<close>

text \<open>
  \<^verbatim>\<open>strconv.Unquote\<close> reads a Go string literal, which is not the same thing as a
  JSON string. The functions of \<^verbatim>\<open>unicode/utf8\<close> it uses come first: a rune is a
  natural number, \<^verbatim>\<open>utf8.RuneError\<close> is \<open>0xFFFD\<close>.
\<close>

definition RuneError :: nat where
  "RuneError = 0xFFFD"

definition RuneSelf :: nat where
  "RuneSelf = 0x80"

definition MaxRune :: nat where
  "MaxRune = 0x10FFFF"

text \<open>The table \<^verbatim>\<open>first\<close> of utf8.go: what the first byte of a sequence says.\<close>

definition first :: "nat \<Rightarrow> nat" where
  "first b =
     (if b < 0x80 then 0xF0
      else if b < 0xC2 then 0xF1
      else if b < 0xE0 then 0x02
      else if b = 0xE0 then 0x13
      else if b < 0xED then 0x03
      else if b = 0xED then 0x23
      else if b < 0xF0 then 0x03
      else if b = 0xF0 then 0x34
      else if b < 0xF4 then 0x04
      else if b = 0xF4 then 0x44
      else 0xF1)"

text \<open>The table \<^verbatim>\<open>acceptRanges\<close>: the bounds of the second byte.\<close>

definition acceptRanges :: "nat \<Rightarrow> nat \<times> nat" where
  "acceptRanges i =
     (if i = 0 then (0x80, 0xBF)
      else if i = 1 then (0xA0, 0xBF)
      else if i = 2 then (0x80, 0x9F)
      else if i = 3 then (0x90, 0xBF)
      else if i = 4 then (0x80, 0x8F)
      else (0, 0))"

definition continuation :: "char \<Rightarrow> bool" where
  "continuation c = (0x80 \<le> (of_char c :: nat) \<and> (of_char c :: nat) \<le> 0xBF)"

fun ValidString :: "string \<Rightarrow> bool" where
  "ValidString [] = True"
| "ValidString (c # cs) =
     (if (of_char c :: nat) < RuneSelf then ValidString cs
      else (let x = first (of_char c); sz = x mod 8; accept = acceptRanges (x div 16) in
        if x = 0xF1 then False
        else if 1 + length cs < sz then False
        else if of_char (cs ! 0) < fst accept \<or> snd accept < (of_char (cs ! 0) :: nat) then False
        else if sz = 2 then ValidString (drop 1 cs)
        else if \<not> continuation (cs ! 1) then False
        else if sz = 3 then ValidString (drop 2 cs)
        else if \<not> continuation (cs ! 2) then False
        else ValidString (drop 3 cs)))"

definition DecodeRuneInString :: "string \<Rightarrow> nat \<times> nat" where
  "DecodeRuneInString s =
     (case s of
        [] \<Rightarrow> (RuneError, 0)
      | c # cs \<Rightarrow>
         (let s0 = (of_char c :: nat); x = first s0; sz = x mod 8; accept = acceptRanges (x div 16) in
          if x \<ge> 0xF0 then (if x = 0xF1 then RuneError else s0, 1)
          else if 1 + length cs < sz then (RuneError, 1)
          else if of_char (cs ! 0) < fst accept \<or> snd accept < (of_char (cs ! 0) :: nat) then (RuneError, 1)
          else if sz \<le> 2 then ((s0 mod 32) * 64 + of_char (cs ! 0) mod 64, 2)
          else if \<not> continuation (cs ! 1) then (RuneError, 1)
          else if sz \<le> 3 then
            ((s0 mod 16) * 4096 + (of_char (cs ! 0) mod 64) * 64 + of_char (cs ! 1) mod 64, 3)
          else if \<not> continuation (cs ! 2) then (RuneError, 1)
          else ((s0 mod 8) * 262144 + (of_char (cs ! 0) mod 64) * 4096
                  + (of_char (cs ! 1) mod 64) * 64 + of_char (cs ! 2) mod 64, 4)))"

definition ValidRune :: "nat \<Rightarrow> bool" where
  "ValidRune r = (r < 0xD800 \<or> 0xDFFF < r \<and> r \<le> MaxRune)"

definition EncodeRune :: "nat \<Rightarrow> string" where
  "EncodeRune r0 =
     (if r0 \<le> 0x7F then [char_of r0]
      else if r0 \<le> 0x7FF then [char_of (0xC0 + r0 div 64), char_of (0x80 + r0 mod 64)]
      else (let r = (if r0 > MaxRune \<or> 0xD800 \<le> r0 \<and> r0 \<le> 0xDFFF then RuneError else r0) in
        if r \<le> 0xFFFF then
          [char_of (0xE0 + r div 4096), char_of (0x80 + (r div 64) mod 64), char_of (0x80 + r mod 64)]
        else
          [char_of (0xF0 + r div 262144), char_of (0x80 + (r div 4096) mod 64),
           char_of (0x80 + (r div 64) mod 64), char_of (0x80 + r mod 64)]))"

text \<open>\<^verbatim>\<open>unhex\<close> and the loop \<^verbatim>\<open>v = v<<4 | x\<close> over the hexadecimal digits.\<close>

definition unhex :: "char \<Rightarrow> nat option" where
  "unhex c =
     (let b = (of_char c :: nat) in
      if 48 \<le> b \<and> b \<le> 57 then Some (b - 48)
      else if 97 \<le> b \<and> b \<le> 102 then Some (b - 97 + 10)
      else if 65 \<le> b \<and> b \<le> 70 then Some (b - 65 + 10)
      else None)"

fun unhex_loop :: "nat \<Rightarrow> string \<Rightarrow> nat option" where
  "unhex_loop v [] = Some v"
| "unhex_loop v (c # cs) = (case unhex c of None \<Rightarrow> None | Some x \<Rightarrow> unhex_loop (v * 16 + x) cs)"

fun unoctal_loop :: "nat \<Rightarrow> string \<Rightarrow> nat option" where
  "unoctal_loop v [] = Some v"
| "unoctal_loop v (c # cs) =
     (if 48 \<le> (of_char c :: nat) \<and> (of_char c :: nat) \<le> 55
      then unoctal_loop (v * 8 + (of_char c - 48)) cs else None)"

text \<open>
  \<^verbatim>\<open>strconv.UnquoteChar(s, quote)\<close>: the first character or escape sequence of
  \<open>s\<close>, whether it is a multibyte one, and the rest of \<open>s\<close>. A value read by
  \<^verbatim>\<open>\U\<close> that does not fit a 32-bit rune is above \<open>MaxRune\<close> here and
  negative in Go: not a valid rune either way.
\<close>

definition UnquoteChar :: "string \<Rightarrow> char \<Rightarrow> error + (nat \<times> bool \<times> string)" where
  "UnquoteChar s0 quote =
     (case s0 of
        [] \<Rightarrow> Inl ErrSyntax
      | c0 # rest \<Rightarrow>
          if c0 = quote \<and> (quote = CHR 0x27 \<or> quote = CHR 0x22) then Inl ErrSyntax
          else if (of_char c0 :: nat) \<ge> RuneSelf then
            (case DecodeRuneInString s0 of (r, sz) \<Rightarrow> Inr (r, True, drop sz s0))
          else if c0 \<noteq> CHR 0x5C then Inr (of_char c0, False, rest)
          else (case rest of
              [] \<Rightarrow> Inl ErrSyntax
            | c # s \<Rightarrow>
                if c = CHR ''a'' then Inr (7, False, s)
                else if c = CHR ''b'' then Inr (8, False, s)
                else if c = CHR ''f'' then Inr (12, False, s)
                else if c = CHR ''n'' then Inr (10, False, s)
                else if c = CHR ''r'' then Inr (13, False, s)
                else if c = CHR ''t'' then Inr (9, False, s)
                else if c = CHR ''v'' then Inr (11, False, s)
                else if c = CHR ''x'' \<or> c = CHR ''u'' \<or> c = CHR ''U'' then
                  (let n = (if c = CHR ''x'' then 2 else if c = CHR ''u'' then 4 else 8) in
                   if length s < n then Inl ErrSyntax
                   else (case unhex_loop 0 (take n s) of
                       None \<Rightarrow> Inl ErrSyntax
                     | Some v \<Rightarrow>
                         if c = CHR ''x'' then Inr (v, False, drop n s)
                         else if \<not> ValidRune v then Inl ErrSyntax
                         else Inr (v, True, drop n s)))
                else if 48 \<le> (of_char c :: nat) \<and> (of_char c :: nat) \<le> 55 then
                  (if length s < 2 then Inl ErrSyntax
                   else (case unoctal_loop (of_char c - 48) (take 2 s) of
                       None \<Rightarrow> Inl ErrSyntax
                     | Some v \<Rightarrow> if v > 255 then Inl ErrSyntax else Inr (v, False, drop 2 s)))
                else if c = CHR 0x5C then Inr (0x5C, False, s)
                else if c = CHR 0x27 \<or> c = CHR 0x22 then
                  (if c \<noteq> quote then Inl ErrSyntax else Inr (of_char c, False, s))
                else Inl ErrSyntax))"

lemma DecodeRuneInString_size: "s \<noteq> [] \<Longrightarrow> 1 \<le> snd (DecodeRuneInString s)"
  by (cases s) (simp_all add: DecodeRuneInString_def Let_def)

lemma UnquoteChar_shorter:
  "UnquoteChar s quote = Inr (r, mb, t) \<Longrightarrow> length t < length s"
  using DecodeRuneInString_size [of s]
  by (auto simp: UnquoteChar_def Let_def split: list.splits if_splits option.splits prod.splits)

text \<open>
  The loop of \<^verbatim>\<open>Unquote\<close> over the text between the quotes: each character is
  appended to \<open>buf\<close>, as one byte or as the UTF-8 encoding of a multibyte rune; a
  single-quoted literal holds one character only.
\<close>

function Unquote_loop :: "string \<Rightarrow> char \<Rightarrow> string \<Rightarrow> error + string" where
  "Unquote_loop s quote buf =
     (if s = [] then Inr buf
      else (case UnquoteChar s quote of
          Inl e \<Rightarrow> Inl e
        | Inr (c, multibyte, ss) \<Rightarrow>
            (let buf1 = (if c < RuneSelf \<or> \<not> multibyte then buf @ [char_of c] else buf @ EncodeRune c) in
             if quote = CHR 0x27 \<and> length ss \<noteq> 0 then Inl ErrSyntax
             else Unquote_loop ss quote buf1)))"
  by pat_completeness auto
termination
  by (relation "measure (\<lambda>(s, quote, buf). length s)") (auto dest: UnquoteChar_shorter)

declare Unquote_loop.simps [simp del]

definition Unquote :: "string \<Rightarrow> error + string" where
  "Unquote s0 =
     (let n = length s0 in
      if n < 2 then Inl ErrSyntax
      else (let quote = hd s0 in
        if quote \<noteq> last s0 then Inl ErrSyntax
        else (let s = butlast (tl s0) in
          if quote = CHR 0x60 then
            (if CHR 0x60 \<in> set s then Inl ErrSyntax
             else if CHR 0x0D \<in> set s then Inr (filter (\<lambda>c. c \<noteq> CHR 0x0D) s)
             else Inr s)
          else if quote \<noteq> CHR 0x22 \<and> quote \<noteq> CHR 0x27 then Inl ErrSyntax
          else if CHR 0x0A \<in> set s then Inl ErrSyntax
          else if CHR 0x5C \<notin> set s \<and> quote \<notin> set s \<and> quote = CHR 0x22 \<and> ValidString s then Inr s
          else if CHR 0x5C \<notin> set s \<and> quote \<notin> set s \<and> quote = CHR 0x27
                  \<and> snd (DecodeRuneInString s) = length s
                  \<and> (fst (DecodeRuneInString s) \<noteq> RuneError \<or> snd (DecodeRuneInString s) \<noteq> 1)
               then Inr s
          else Unquote_loop s quote [])))"

subsection \<open>MaybeInt\<close>

text \<open>
  \<^verbatim>\<open>type MaybeInt int\<close>. \<open>UnmarshalJSON f rawData\<close> is the method
  \<^verbatim>\<open>(f *MaybeInt) UnmarshalJSON(rawData)\<close>: \<open>f\<close> is the value the receiver
  points to before the call, the result is the error returned and the value the receiver
  points to afterwards. The early \<^verbatim>\<open>return err\<close> after \<^verbatim>\<open>strconv.Unquote\<close>
  leaves the receiver as it was; the last two lines store \<^verbatim>\<open>v\<close> whatever
  \<^verbatim>\<open>json.Unmarshal\<close> returned.
\<close>

type_synonym MaybeInt = int

definition UnmarshalJSON :: "MaybeInt \<Rightarrow> string \<Rightarrow> error option \<times> MaybeInt" where
  "UnmarshalJSON f rawData =
     (let v = 0; data = rawData in
      if Unmarshal_string rawData = None then
        (case Unquote rawData of
           Inl e \<Rightarrow> (Some e, f)
         | Inr data1 \<Rightarrow> (case Unmarshal_int data1 v of (e, v1) \<Rightarrow> (e, v1)))
      else (case Unmarshal_int data v of (e, v1) \<Rightarrow> (e, v1)))"

subsection \<open>Decimal text\<close>

text \<open>
  The decimal rendering of an integer, as \<^verbatim>\<open>strconv.Itoa\<close> writes it: a minus sign
  for a negative number, then the digits without a leading zero. \<open>plainByte\<close> holds
  of the printable ASCII bytes other than the double quote and the backslash: between two
  double quotes they stand for themselves, in a JSON string and in a Go string literal.
\<close>

definition digitByte :: "nat \<Rightarrow> char" where
  "digitByte d = char_of (48 + d)"

fun FormatUint :: "nat \<Rightarrow> string" where
  "FormatUint n = (if n < 10 then [digitByte n] else FormatUint (n div 10) @ [digitByte (n mod 10)])"

declare FormatUint.simps [simp del]

definition Itoa :: "int \<Rightarrow> string" where
  "Itoa n = (if n < 0 then CHR ''-'' # FormatUint (nat (- n)) else FormatUint (nat n))"

definition plainByte :: "char \<Rightarrow> bool" where
  "plainByte c = (0x20 \<le> (of_char c :: nat) \<and> (of_char c :: nat) < 0x80 \<and> c \<noteq> CHR 0x22 \<and> c \<noteq> CHR 0x5C)"

subsection \<open>The data types of pagerules.go\<close>

text \<open>
  The structs of the file, field by field. A Go slice is a list (the \<^verbatim>\<open>nil\<close> slice
  and the empty slice are both \<open>[]\<close>). The type variable \<open>'v\<close> stands for the
  dynamic values of \<^verbatim>\<open>interface{}\<close>, the type of an action's value.
  \<^verbatim>\<open>time.Time\<close> is the struct of the standard library: two integers and a pointer to
  a location.
\<close>

record PageRuleConstraint =
  Operator :: string
  Value :: string

record PageRuleTarget =
  Target :: string
  Constraint :: PageRuleConstraint

record 'v PageRuleAction =
  ID :: string
  Value :: 'v

datatype Location = Location string

record Time =
  wall :: nat
  ext :: int
  loc :: "Location option"

record 'v PageRule =
  ID :: string
  Targets :: "PageRuleTarget list"
  Actions :: "'v PageRuleAction list"
  Priority :: MaybeInt
  Status :: string
  ModifiedOn :: Time
  CreatedOn :: Time

record 'v PageRuleDetailResponse =
  Success :: bool
  Errors :: "string list"
  Messages :: "string list"
  Result :: "'v PageRule"

record 'v PageRulesResponse =
  Success :: bool
  Errors :: "string list"
  Messages :: "string list"
  Result :: "'v PageRule list"

text \<open>The zero values: \<^verbatim>\<open>time.Time{}\<close> and \<^verbatim>\<open>PageRule{}\<close>.\<close>

definition Time_zero :: Time where
  "Time_zero = \<lparr>wall = 0, ext = 0, loc = None\<rparr>"

definition PageRule_zero :: "'v PageRule" where
  "PageRule_zero = \<lparr>ID = [], Targets = [], Actions = [], Priority = 0, Status = [],
     ModifiedOn = Time_zero, CreatedOn = Time_zero\<rparr>"

subsection \<open>The collaborators\<close>

text \<open>
  The operations call two things that are not in pagerules.go. \<^verbatim>\<open>api.makeRequest(method,
  uri, params)\<close> performs the HTTP call and returns the bytes of the answer or an error;
  \<^verbatim>\<open>params\<close> is the rule or \<^verbatim>\<open>nil\<close>. \<^verbatim>\<open>json.Unmarshal(res, &r)\<close>
  decodes the bytes into a fresh envelope and returns an error or \<^verbatim>\<open>nil\<close>; with an
  error it may already have stored a part of the data in \<^verbatim>\<open>r\<close>, so the model
  returns the envelope in both cases. Both are parameters of the operations.
\<close>

record 'v API =
  makeRequest :: "string \<Rightarrow> string \<Rightarrow> 'v PageRule option \<Rightarrow> error + string"
  Unmarshal_detail :: "string \<Rightarrow> error option \<times> 'v PageRuleDetailResponse"
  Unmarshal_list :: "string \<Rightarrow> error option \<times> 'v PageRulesResponse"

text \<open>
  Modelled from the spec: the two message constants \<^verbatim>\<open>errMakeRequestError\<close> and
  \<^verbatim>\<open>errUnmarshalError\<close> are declared in another file of the package; the spec calls
  them "request failed" and "response decode failed".
\<close>

definition errMakeRequestError :: string where
  "errMakeRequestError = ''request failed''"

definition errUnmarshalError :: string where
  "errUnmarshalError = ''response decode failed''"

text \<open>
  The calls an operation makes are recorded in the order it makes them, so that "exactly
  one request" and "no decode attempt" can be stated.
\<close>

datatype 'v call =
    MakeRequest string string "'v PageRule option"
  | JsonUnmarshal string

subsection \<open>The six operations\<close>

text \<open>
  Each definition follows its Go function line by line. The result is the pair the Go
  function returns and the calls it made.
\<close>

definition CreatePageRule ::
  "'v API \<Rightarrow> string \<Rightarrow> 'v PageRule \<Rightarrow> ('v PageRule \<times> error option) \<times> 'v call list" where
  "CreatePageRule api zoneID rule =
     (let uri = ''/zones/'' @ zoneID @ ''/pagerules'' in
      case makeRequest api ''POST'' uri (Some rule) of
        Inl e \<Rightarrow>
          ((PageRule_zero, Some (Wrap e errMakeRequestError)),
           [MakeRequest ''POST'' uri (Some rule)])
      | Inr res \<Rightarrow>
          (case Unmarshal_detail api res of
             (Some e, r) \<Rightarrow>
               ((PageRule_zero, Some (Wrap e errUnmarshalError)),
                [MakeRequest ''POST'' uri (Some rule), JsonUnmarshal res])
           | (None, r) \<Rightarrow>
               ((PageRuleDetailResponse.Result r, None),
                [MakeRequest ''POST'' uri (Some rule), JsonUnmarshal res])))"

definition ListPageRules ::
  "'v API \<Rightarrow> string \<Rightarrow> ('v PageRule list \<times> error option) \<times> 'v call list" where
  "ListPageRules api zoneID =
     (let uri = ''/zones/'' @ zoneID @ ''/pagerules'' in
      case makeRequest api ''GET'' uri None of
        Inl e \<Rightarrow>
          (([], Some (Wrap e errMakeRequestError)), [MakeRequest ''GET'' uri None])
      | Inr res \<Rightarrow>
          (case Unmarshal_list api res of
             (Some e, r) \<Rightarrow>
               (([], Some (Wrap e errUnmarshalError)),
                [MakeRequest ''GET'' uri None, JsonUnmarshal res])
           | (None, r) \<Rightarrow>
               ((PageRulesResponse.Result r, None),
                [MakeRequest ''GET'' uri None, JsonUnmarshal res])))"

definition GetPageRule ::
  "'v API \<Rightarrow> string \<Rightarrow> string \<Rightarrow> ('v PageRule \<times> error option) \<times> 'v call list" where
  "GetPageRule api zoneID ruleID =
     (let uri = ''/zones/'' @ zoneID @ ''/pagerules/'' @ ruleID in
      case makeRequest api ''GET'' uri None of
        Inl e \<Rightarrow>
          ((PageRule_zero, Some (Wrap e errMakeRequestError)), [MakeRequest ''GET'' uri None])
      | Inr res \<Rightarrow>
          (case Unmarshal_detail api res of
             (Some e, r) \<Rightarrow>
               ((PageRule_zero, Some (Wrap e errUnmarshalError)),
                [MakeRequest ''GET'' uri None, JsonUnmarshal res])
           | (None, r) \<Rightarrow>
               ((PageRuleDetailResponse.Result r, None),
                [MakeRequest ''GET'' uri None, JsonUnmarshal res])))"

definition ChangePageRule ::
  "'v API \<Rightarrow> string \<Rightarrow> string \<Rightarrow> 'v PageRule \<Rightarrow> ('v PageRule \<times> error option) \<times> 'v call list" where
  "ChangePageRule api zoneID ruleID rule =
     (let uri = ''/zones/'' @ zoneID @ ''/pagerules/'' @ ruleID in
      case makeRequest api ''PATCH'' uri (Some rule) of
        Inl e \<Rightarrow>
          ((PageRule_zero, Some (Wrap e errMakeRequestError)),
           [MakeRequest ''PATCH'' uri (Some rule)])
      | Inr res \<Rightarrow>
          (case Unmarshal_detail api res of
             (Some e, r) \<Rightarrow>
               ((PageRule_zero, Some (Wrap e errUnmarshalError)),
                [MakeRequest ''PATCH'' uri (Some rule), JsonUnmarshal res])
           | (None, r) \<Rightarrow>
               ((PageRuleDetailResponse.Result r, None),
                [MakeRequest ''PATCH'' uri (Some rule), JsonUnmarshal res])))"

definition UpdatePageRule ::
  "'v API \<Rightarrow> string \<Rightarrow> string \<Rightarrow> 'v PageRule \<Rightarrow> ('v PageRule \<times> error option) \<times> 'v call list" where
  "UpdatePageRule api zoneID ruleID rule =
     (let uri = ''/zones/'' @ zoneID @ ''/pagerules/'' @ ruleID in
      case makeRequest api ''PUT'' uri (Some rule) of
        Inl e \<Rightarrow>
          ((PageRule_zero, Some (Wrap e errMakeRequestError)),
           [MakeRequest ''PUT'' uri (Some rule)])
      | Inr res \<Rightarrow>
          (case Unmarshal_detail api res of
             (Some e, r) \<Rightarrow>
               ((PageRule_zero, Some (Wrap e errUnmarshalError)),
                [MakeRequest ''PUT'' uri (Some rule), JsonUnmarshal res])
           | (None, r) \<Rightarrow>
               ((PageRuleDetailResponse.Result r, None),
                [MakeRequest ''PUT'' uri (Some rule), JsonUnmarshal res])))"

definition DeletePageRule ::
  "'v API \<Rightarrow> string \<Rightarrow> string \<Rightarrow> error option \<times> 'v call list" where
  "DeletePageRule api zoneID ruleID =
     (let uri = ''/zones/'' @ zoneID @ ''/pagerules/'' @ ruleID in
      case makeRequest api ''DELETE'' uri None of
        Inl e \<Rightarrow> (Some (Wrap e errMakeRequestError), [MakeRequest ''DELETE'' uri None])
      | Inr res \<Rightarrow>
          (case Unmarshal_detail api res of
             (Some e, r) \<Rightarrow>
               (Some (Wrap e errUnmarshalError),
                [MakeRequest ''DELETE'' uri None, JsonUnmarshal res])
           | (None, r) \<Rightarrow> (None, [MakeRequest ''DELETE'' uri None, JsonUnmarshal res])))"

text \<open>The requests among the calls of an operation.\<close>

fun requests :: "'v call list \<Rightarrow> (string \<times> string \<times> 'v PageRule option) list" where
  "requests [] = []"
| "requests (MakeRequest method uri body # cs) = (method, uri, body) # requests cs"
| "requests (JsonUnmarshal res # cs) = requests cs"

fun decodes :: "'v call list \<Rightarrow> string list" where
  "decodes [] = []"
| "decodes (MakeRequest method uri body # cs) = decodes cs"
| "decodes (JsonUnmarshal res # cs) = res # decodes cs"

subsection \<open>json.Marshal of a PageRule: which keys are written\<close>

text \<open>
  \<^verbatim>\<open>api.makeRequest\<close> sends \<^verbatim>\<open>json.Marshal(params)\<close> as the body. For a struct
  the encoder of \<^verbatim>\<open>encoding/json\<close> goes through the fields in the order of their
  declaration and skips a field when its tag says \<^verbatim>\<open>omitempty\<close> and
  \<^verbatim>\<open>isEmptyValue\<close> holds of its value. \<^verbatim>\<open>isEmptyValue\<close> looks at the kind of
  the value: a string or a slice is empty when its length is 0, an integer when it is 0,
  and a struct never is (the \<^verbatim>\<open>default\<close> of its \<^verbatim>\<open>switch\<close>).

  \<open>reflect_value\<close> is a field's value as \<^verbatim>\<open>isEmptyValue\<close> sees it, for the kinds
  that occur in \<^verbatim>\<open>PageRule\<close>; \<open>PageRule_fields\<close> is the table of the fields of
  \<^verbatim>\<open>PageRule\<close> with the key and the \<^verbatim>\<open>omitempty\<close> flag of each tag.
\<close>

datatype reflect_value =
    StringValue string
  | SliceValue nat
  | IntValue int
  | StructValue Time

fun isEmptyValue :: "reflect_value \<Rightarrow> bool" where
  "isEmptyValue (StringValue s) = (length s = 0)"
| "isEmptyValue (SliceValue len) = (len = 0)"
| "isEmptyValue (IntValue i) = (i = 0)"
| "isEmptyValue (StructValue t) = False"

definition PageRule_fields :: "'v PageRule \<Rightarrow> (string \<times> bool \<times> reflect_value) list" where
  "PageRule_fields rule =
     [(''id'', True, StringValue (ID rule)),
      (''targets'', False, SliceValue (length (Targets rule))),
      (''actions'', False, SliceValue (length (Actions rule))),
      (''priority'', False, IntValue (Priority rule)),
      (''status'', False, StringValue (Status rule)),
      (''modified_on'', True, StructValue (ModifiedOn rule)),
      (''created_on'', True, StructValue (CreatedOn rule))]"

fun written_keys :: "(string \<times> bool \<times> reflect_value) list \<Rightarrow> string list" where
  "written_keys [] = []"
| "written_keys ((name, omitEmpty, fv) # fs) =
     (if omitEmpty \<and> isEmptyValue fv then written_keys fs else name # written_keys fs)"

definition Marshal_keys :: "'v PageRule \<Rightarrow> string list" where
  "Marshal_keys rule = written_keys (PageRule_fields rule)"

subsection \<open>Stub collaborators\<close>

text \<open>
  Three stubs for the collaborators, as a test would write them: a transport that is down,
  a transport whose answer does not decode, and a server that answers with a well-formed
  envelope that reports a failure.
\<close>

definition refused_detail :: "unit PageRuleDetailResponse" where
  "refused_detail = \<lparr>PageRuleDetailResponse.Success = False,
     PageRuleDetailResponse.Errors = [''limit reached''], PageRuleDetailResponse.Messages = [],
     PageRuleDetailResponse.Result = PageRule_zero\<lparr>ID := ''9a7806061c88ada191ed06f989cc3dac''\<rparr>\<rparr>"

definition refused_list :: "unit PageRulesResponse" where
  "refused_list = \<lparr>Success = False, Errors = [''limit reached''], Messages = [],
     Result = [PageRule_zero\<lparr>ID := ''9a7806061c88ada191ed06f989cc3dac''\<rparr>]\<rparr>"

definition stub_down :: "unit API" where
  "stub_down = \<lparr>
     makeRequest = (\<lambda>method uri params. Inl (TransportError ''connection refused'')),
     Unmarshal_detail = (\<lambda>res. (None, refused_detail)),
     Unmarshal_list = (\<lambda>res. (None, refused_list))\<rparr>"

definition stub_garbled :: "unit API" where
  "stub_garbled = \<lparr>
     makeRequest = (\<lambda>method uri params. Inr ''<html>''),
     Unmarshal_detail = (\<lambda>res. (Some (SyntaxError ''looking for beginning of value''), refused_detail)),
     Unmarshal_list = (\<lambda>res. (Some (SyntaxError ''looking for beginning of value''), refused_list))\<rparr>"

definition stub_refused :: "unit API" where
  "stub_refused = \<lparr>
     makeRequest = (\<lambda>method uri params. Inr ''{}''),
     Unmarshal_detail = (\<lambda>res. (None, refused_detail)),
     Unmarshal_list = (\<lambda>res. (None, refused_list))\<rparr>"

section \<open>Properties\<close>

subsection \<open>The scanner on numbers and plain strings\<close>

abbreviation top :: "step_fn \<Rightarrow> scanner" where
  "top st \<equiv> \<lparr>step = st, endTop = False, parseState = [], err = None\<rparr>"

lemma eof_top_literal_end:
  "st \<in> {State1, State0, StateEndValue} \<Longrightarrow> checkValid_from (top st) [] = None"
  by (auto simp: eof_def scan_step_def state1_def state0_def stateEndValue_def stateEndTop_def
      isSpace_def isDigit_def)

lemma isDigit_not_special:
  "isDigit c \<Longrightarrow> \<not> isSpace c \<and> c \<noteq> CHR ''.'' \<and> c \<noteq> CHR ''e'' \<and> c \<noteq> CHR ''E''
     \<and> c \<noteq> CHR ''-'' \<and> c \<noteq> CHR ''+'' \<and> c \<noteq> CHR 0x22 \<and> c \<noteq> CHR 0x5C
     \<and> c \<noteq> CHR ''{'' \<and> c \<noteq> CHR ''['' \<and> c \<noteq> CHR ''n'' \<and> c \<noteq> CHR ''t''
     \<and> c \<noteq> CHR ''f'' \<and> c \<noteq> CHR 0x0A \<and> c \<noteq> CHR 0x60 \<and> c \<noteq> CHR 0x27"
  by (auto simp: isDigit_def isSpace_def)

lemma isDigit19_isDigit: "isDigit19 c \<Longrightarrow> isDigit c \<and> c \<noteq> CHR ''0''"
  by (auto simp: isDigit_def isDigit19_def)

lemma isDigit_plainByte: "isDigit c \<Longrightarrow> plainByte c"
  by (auto simp: isDigit_def plainByte_def)

lemma scan_State1_digits:
  "\<forall>x\<in>set cs. isDigit x \<Longrightarrow> checkValid_from (top State1) cs = None"
proof (induction cs)
  case Nil
  show ?case by (rule eof_top_literal_end) simp
next
  case (Cons c cs)
  then show ?case by (simp add: scan_step_def state1_def)
qed

lemma checkValid_nonzero:
  "isDigit19 c \<Longrightarrow> \<forall>x\<in>set cs. isDigit x \<Longrightarrow> checkValid (c # cs) = None"
  using isDigit19_isDigit [of c] isDigit_not_special [of c]
  by (simp add: checkValid_def reset_def scan_step_def stateBeginValue_def scan_State1_digits)

lemma checkValid_zero: "checkValid ''0'' = None"
  using eof_top_literal_end [of State0]
  by (simp add: checkValid_def reset_def scan_step_def stateBeginValue_def isSpace_def)

lemma checkValid_negative:
  "isDigit19 c \<Longrightarrow> \<forall>x\<in>set cs. isDigit x \<Longrightarrow> checkValid (CHR ''-'' # c # cs) = None"
  using isDigit19_isDigit [of c]
  by (simp add: checkValid_def reset_def scan_step_def stateBeginValue_def stateNeg_def
      isSpace_def scan_State1_digits)

lemma scan_StateError:
  "step s = StateError \<Longrightarrow> err s = Some e \<Longrightarrow> checkValid_from s cs = Some e"
  by (induction cs) (simp_all add: eof_def scan_step_def)

lemma checkValid_leading_zero:
  assumes "isDigit d"
  shows "checkValid (CHR ''0'' # d # ds) = Some (SyntaxError ''after top-level value'')"
proof -
  have 1: "scan_step reset (CHR ''0'') = (scanBeginLiteral, top State0)"
    by (simp add: reset_def scan_step_def stateBeginValue_def isSpace_def)
  have 2: "scan_step (top State0) d =
      (scanEnd, \<lparr>step = StateError, endTop = True, parseState = [],
                err = Some (SyntaxError ''after top-level value'')\<rparr>)"
    using isDigit_not_special [OF assms]
    by (simp add: scan_step_def state0_def stateEndValue_def stateEndTop_def scan_error_def)
  show ?thesis
    by (simp add: checkValid_def 1 2 scan_StateError)
qed

lemma scan_StateInString_plain:
  "\<forall>x\<in>set cs. plainByte x \<Longrightarrow> checkValid_from (top StateInString) (cs @ [CHR 0x22]) = None"
proof (induction cs)
  case Nil
  show ?case
    using eof_top_literal_end [of StateEndValue]
    by (simp add: scan_step_def stateInString_def)
next
  case (Cons c cs)
  then show ?case by (simp add: scan_step_def stateInString_def plainByte_def)
qed

lemma checkValid_quoted_plain:
  "\<forall>x\<in>set cs. plainByte x \<Longrightarrow> checkValid (CHR 0x22 # cs @ [CHR 0x22]) = None"
  by (simp add: checkValid_def reset_def scan_step_def stateBeginValue_def isSpace_def
      scan_StateInString_plain)

lemma digitByte_code: "d < 10 \<Longrightarrow> (of_char (digitByte d) :: nat) = 48 + d"
  by (simp add: digitByte_def)

lemma isDigit_digitByte: "d < 10 \<Longrightarrow> isDigit (digitByte d)"
  by (simp add: isDigit_def digitByte_code)

lemma isDigit19_digitByte: "0 < d \<Longrightarrow> d < 10 \<Longrightarrow> isDigit19 (digitByte d)"
  by (simp add: isDigit19_def digitByte_code)

lemma digitByte_0: "digitByte 0 = CHR ''0''"
proof -
  have "(of_char (digitByte 0) :: nat) = of_char (CHR ''0'')"
    by (simp add: digitByte_code)
  then show ?thesis by (simp only: of_char_eq_iff)
qed

lemma FormatUint_0: "FormatUint 0 = ''0''"
  by (simp add: FormatUint.simps digitByte_0)

lemma FormatUint_digits: "\<forall>x\<in>set (FormatUint n). isDigit x"
proof (induction n rule: FormatUint.induct)
  case (1 n)
  show ?case
  proof (cases "n < 10")
    case True
    then show ?thesis by (simp add: FormatUint.simps [of n] isDigit_digitByte)
  next
    case False
    with "1" show ?thesis by (simp add: FormatUint.simps [of n] isDigit_digitByte)
  qed
qed

lemma FormatUint_shape:
  "0 < n \<Longrightarrow> \<exists>c cs. FormatUint n = c # cs \<and> isDigit19 c \<and> (\<forall>x\<in>set cs. isDigit x)"
proof (induction n rule: FormatUint.induct)
  case (1 n)
  show ?case
  proof (cases "n < 10")
    case True
    with "1.prems" show ?thesis by (simp add: FormatUint.simps [of n] isDigit19_digitByte)
  next
    case False
    then have "0 < n div 10" by simp
    with "1.IH" False obtain c cs where
      h: "FormatUint (n div 10) = c # cs" "isDigit19 c" "\<forall>x\<in>set cs. isDigit x"
      by blast
    have "FormatUint n = c # (cs @ [digitByte (n mod 10)])"
      using False h(1) by (simp add: FormatUint.simps [of n])
    with h show ?thesis by (simp add: isDigit_digitByte)
  qed
qed

lemma ValidString_ascii: "\<forall>x\<in>set cs. (of_char x :: nat) < 0x80 \<Longrightarrow> ValidString cs"
  by (induction cs) (simp_all add: RuneSelf_def)

lemma Unmarshal_int_error_keeps:
  assumes "fst (Unmarshal_int data v) \<noteq> None"
  shows "snd (Unmarshal_int data v) = v"
proof (cases "checkValid data")
  case (Some e)
  then show ?thesis by (simp add: Unmarshal_int_def)
next
  case None
  show ?thesis
  proof (cases "dropWhile isSpace data")
    case Nil
    with None show ?thesis by (simp add: Unmarshal_int_def del: dropWhile_eq_Nil_conv)
  next
    case (Cons c cs)
    obtain n e where p: "ParseInt (rescanLiteral c cs) = (n, e)"
      by (cases "ParseInt (rescanLiteral c cs)")
    from assms show ?thesis
      by (cases e) (auto simp: Unmarshal_int_def None Cons p Let_def split: if_splits)
  qed
qed

lemma ParseUint_loop_append:
  "ParseUint_loop n (xs @ ys) =
     (case ParseUint_loop n xs of (m, None) \<Rightarrow> ParseUint_loop m ys | (m, Some e) \<Rightarrow> (m, Some e))"
  by (induction xs arbitrary: n) (simp_all add: Let_def)

lemma Unmarshal_string_quoted_plain:
  "\<forall>x\<in>set cs. plainByte x \<Longrightarrow> Unmarshal_string (CHR 0x22 # cs @ [CHR 0x22]) = None"
  by (simp add: Unmarshal_string_def checkValid_quoted_plain isSpace_def)

lemma UnmarshalJSON_not_string:
  "Unmarshal_string rawData \<noteq> None \<Longrightarrow> UnmarshalJSON f rawData = Unmarshal_int rawData 0"
  by (cases "Unmarshal_string rawData") (simp_all add: UnmarshalJSON_def)

subsection \<open>What a failed decode leaves in the receiver\<close>

lemmas scanner_defs =
  checkValid_def reset_def eof_def scan_step_def stateBeginValue_def stateBeginValueOrEmpty_def
  stateBeginString_def stateBeginStringOrEmpty_def stateEndValue_def stateEndTop_def
  stateInString_def stateInStringEsc_def stateInStringEscU_def stateESign_def stateE_def
  stateE0_def stateDot_def stateDot0_def state0_def state1_def stateNeg_def stateLetter_def
  scan_error_def pushParseState_def popParseState_def isSpace_def isDigit_def isDigit19_def
  isHex_def maxNestingDepth_def

lemma checkValid_null: "checkValid ''null'' = None"
  by (simp add: scanner_defs)

lemma Unmarshal_string_null: "Unmarshal_string ''null'' = None"
  by (simp add: Unmarshal_string_def checkValid_null isSpace_def)

lemma Unquote_null: "Unquote ''null'' = Inl ErrSyntax"
  by (simp add: Unquote_def)

lemma checkValid_abc: "checkValid ''abc'' = Some (SyntaxError ''looking for beginning of value'')"
  by (simp add: scanner_defs)

lemma UnmarshalJSON_abc: "UnmarshalJSON 7 ''abc'' = (Some (SyntaxError ''looking for beginning of value''), 0)"
  by (simp add: UnmarshalJSON_def Unmarshal_string_def Unmarshal_int_def checkValid_abc)

text \<open>
  Claim C6, as the code has it. When \<^verbatim>\<open>UnmarshalJSON\<close> returns an error \<open>e\<close>,
  there are two cases. If the input was accepted as a JSON string (or \<^verbatim>\<open>null\<close>)
  and \<^verbatim>\<open>strconv.Unquote\<close> failed, \<open>e\<close> is the error of
  \<^verbatim>\<open>Unquote\<close> and the receiver keeps the value it had before the call. Otherwise
  \<open>e\<close> is the error of the final \<^verbatim>\<open>json.Unmarshal\<close> into the
  \<^verbatim>\<open>int\<close> and the receiver is set to zero.
\<close>

theorem UnmarshalJSON_failure_target:
  assumes "fst (UnmarshalJSON f rawData) = Some e"
  shows "if Unmarshal_string rawData = None \<and> isl (Unquote rawData)
         then Unquote rawData = Inl e \<and> snd (UnmarshalJSON f rawData) = f
         else snd (UnmarshalJSON f rawData) = 0
           \<and> fst (Unmarshal_int
                (if Unmarshal_string rawData = None then projr (Unquote rawData) else rawData) 0)
              = Some e"
proof (cases "Unmarshal_string rawData = None")
  case True
  show ?thesis
  proof (cases "Unquote rawData")
    case (Inl e')
    with True assms show ?thesis by (simp add: UnmarshalJSON_def)
  next
    case (Inr data)
    with True have u: "UnmarshalJSON f rawData = Unmarshal_int data 0"
      by (simp add: UnmarshalJSON_def)
    with assms have "fst (Unmarshal_int data 0) = Some e" by simp
    moreover from this have "snd (Unmarshal_int data 0) = 0"
      by (intro Unmarshal_int_error_keeps) simp
    ultimately show ?thesis using True Inr u by simp
  qed
next
  case False
  then have u: "UnmarshalJSON f rawData = Unmarshal_int rawData 0"
    by (rule UnmarshalJSON_not_string)
  with assms have "fst (Unmarshal_int rawData 0) = Some e" by simp
  moreover from this have "snd (Unmarshal_int rawData 0) = 0"
    by (intro Unmarshal_int_error_keeps) simp
  ultimately show ?thesis using False u by auto
qed

text \<open>
  Both cases happen: \<^verbatim>\<open>null\<close> fails in \<^verbatim>\<open>Unquote\<close> and leaves a
  receiver that held 7 at 7; \<^verbatim>\<open>abc\<close> fails in the final decode and sets it to 0.
\<close>

theorem UnmarshalJSON_failure_target_witness:
  "fst (UnmarshalJSON 7 ''null'') = Some ErrSyntax
   \<and> Unquote ''null'' = Inl ErrSyntax \<and> snd (UnmarshalJSON 7 ''null'') = 7
   \<and> fst (UnmarshalJSON 7 ''abc'') = Some (SyntaxError ''looking for beginning of value'')
   \<and> snd (UnmarshalJSON 7 ''abc'') = 0"
proof -
  have n: "fst (UnmarshalJSON 7 ''null'') = Some ErrSyntax"
    by (simp add: UnmarshalJSON_def Unmarshal_string_null Unquote_null)
  have a: "fst (UnmarshalJSON 7 ''abc'') = Some (SyntaxError ''looking for beginning of value'')"
    by (simp add: UnmarshalJSON_abc)
  have s: "Unmarshal_string ''abc'' \<noteq> None"
    by (simp add: Unmarshal_string_def checkValid_abc)
  show ?thesis
    using UnmarshalJSON_failure_target [OF n] UnmarshalJSON_failure_target [OF a] n a s
    by (simp add: Unmarshal_string_null Unquote_null)
qed

text \<open>
  Claim C6 as stated (the receiver is left at zero whatever it held before) fails on the
  input \<^verbatim>\<open>null\<close> with a receiver that holds 7.
\<close>

theorem UnmarshalJSON_failure_not_zero: "UnmarshalJSON 7 ''null'' = (Some ErrSyntax, 7)"
  by (simp add: UnmarshalJSON_def Unmarshal_string_null Unquote_null)

subsection \<open>Decoding decimal text\<close>

lemma not_plainByte: "\<not> plainByte (CHR 0x0A)" "\<not> plainByte (CHR 0x5C)" "\<not> plainByte (CHR 0x22)"
  by (simp_all add: plainByte_def)

lemma plain_no_specials:
  assumes "\<forall>x\<in>set cs. plainByte x"
  shows "CHR 0x0A \<notin> set cs" "CHR 0x5C \<notin> set cs" "CHR 0x22 \<notin> set cs"
  using assms not_plainByte by blast+

lemma Unquote_quoted_plain:
  assumes p: "\<forall>x\<in>set cs. plainByte x"
  shows "Unquote (CHR 0x22 # cs @ [CHR 0x22]) = Inr cs"
proof -
  define s0 where "s0 = CHR 0x22 # cs @ [CHR 0x22]"
  have v: "ValidString cs"
    using p by (intro ValidString_ascii) (simp add: plainByte_def)
  note n = plain_no_specials [OF p]
  have b: "butlast (tl s0) = cs"
    by (simp add: s0_def butlast_append)
  have l: "last s0 = CHR 0x22" "hd s0 = CHR 0x22" "length s0 < 2 \<longleftrightarrow> False"
    by (simp_all add: s0_def)
  have q: "CHR 0x22 = CHR 0x60 \<longleftrightarrow> False" "CHR 0x22 = CHR 0x27 \<longleftrightarrow> False"
    by simp_all
  have "Unquote s0 = Inr cs"
    unfolding Unquote_def Let_def l b
    using v n by (simp only: q if_False if_True simp_thms not_False_eq_True)
  then show ?thesis by (simp only: s0_def)
qed

lemma UnmarshalJSON_quoted_plain:
  "\<forall>x\<in>set cs. plainByte x \<Longrightarrow>
     UnmarshalJSON f (CHR 0x22 # cs @ [CHR 0x22]) = Unmarshal_int cs 0"
  by (simp add: UnmarshalJSON_def Unmarshal_string_quoted_plain Unquote_quoted_plain)

lemma Unmarshal_int_leading_zero:
  "isDigit d \<Longrightarrow>
     Unmarshal_int (CHR ''0'' # d # ds) v = (Some (SyntaxError ''after top-level value''), v)"
  by (simp add: Unmarshal_int_def checkValid_leading_zero)

lemma ParseUint_loop_snoc:
  assumes "isDigit c" and "ParseUint_loop n xs = (m, None)"
    and "m * 10 + (of_char c - 48) < 2 ^ 64"
  shows "ParseUint_loop n (xs @ [c]) = (m * 10 + (of_char c - 48), None)"
proof -
  define d :: nat where "d = of_char c - 48"
  have b: "m * 10 + d < 18446744073709551616"
    using assms(3) by (simp add: d_def)
  then have m: "\<not> 1844674407370955162 \<le> m" "m * 10 < 18446744073709551616"
    by arith+
  have "ParseUint_loop m [c] = (m * 10 + d, None)"
    using assms(1) b m by (simp add: maxUint64_def Let_def d_def [symmetric])
  then show ?thesis
    using assms(2) by (simp add: ParseUint_loop_append d_def)
qed

lemma ParseUint_loop_FormatUint:
  "n < 2 ^ 64 \<Longrightarrow> ParseUint_loop 0 (FormatUint n) = (n, None)"
proof (induction n rule: FormatUint.induct)
  case (1 n)
  show ?case
  proof (cases "n < 10")
    case True
    have "ParseUint_loop 0 ([] @ [digitByte n]) = (0 * 10 + (of_char (digitByte n) - 48), None)"
      using True "1.prems"
      by (intro ParseUint_loop_snoc) (simp_all add: isDigit_digitByte digitByte_code)
    with True show ?thesis by (simp add: FormatUint.simps [of n] digitByte_code)
  next
    case False
    have lt: "n mod 10 < 10" by simp
    have "n div 10 < 2 ^ 64" using "1.prems" by simp
    with "1.IH" False have ih: "ParseUint_loop 0 (FormatUint (n div 10)) = (n div 10, None)"
      by simp
    have "ParseUint_loop 0 (FormatUint (n div 10) @ [digitByte (n mod 10)])
        = (n div 10 * 10 + (of_char (digitByte (n mod 10)) - 48), None)"
      using "1.prems" by (intro ParseUint_loop_snoc ih) (simp_all add: isDigit_digitByte digitByte_code)
    with False show ?thesis by (simp add: FormatUint.simps [of n] digitByte_code)
  qed
qed

lemma FormatUint_nonempty: "FormatUint n \<noteq> []"
  by (cases "n < 10") (simp_all add: FormatUint.simps [of n])

lemma hd_FormatUint: "isDigit (hd (FormatUint n))"
  using FormatUint_digits [of n] FormatUint_nonempty [of n] by (cases "FormatUint n") simp_all

lemma ParseInt_nonneg:
  assumes "m < 2 ^ 63"
  shows "ParseInt (FormatUint m) = (int m, None)"
proof -
  have h: "hd (FormatUint m) \<noteq> CHR ''-''" "hd (FormatUint m) \<noteq> CHR ''+''"
    using isDigit_not_special [OF hd_FormatUint [of m]] by simp_all
  have p: "ParseUint (FormatUint m) = (m, None)"
    using assms by (simp add: ParseUint_def FormatUint_nonempty ParseUint_loop_FormatUint)
  show ?thesis
    using assms by (simp add: ParseInt_def FormatUint_nonempty h p)
qed

lemma ParseInt_negative:
  assumes "m \<le> 2 ^ 63"
  shows "ParseInt (CHR ''-'' # FormatUint m) = (- int m, None)"
proof -
  have p: "ParseUint (FormatUint m) = (m, None)"
    using assms by (simp add: ParseUint_def FormatUint_nonempty ParseUint_loop_FormatUint)
  show ?thesis
    using assms by (simp add: ParseInt_def p)
qed

lemma ParseInt_Itoa:
  assumes "- (2 ^ 63) \<le> n" and "n < 2 ^ 63"
  shows "ParseInt (Itoa n) = (n, None)"
proof (cases "n < 0")
  case True
  have "nat (- n) \<le> 2 ^ 63" using assms(1) by simp
  from ParseInt_negative [OF this] True show ?thesis by (simp add: Itoa_def)
next
  case False
  have "nat n < 2 ^ 63" using assms(2) False by simp
  from ParseInt_nonneg [OF this] False show ?thesis by (simp add: Itoa_def)
qed

lemma isDigit_isNumberByte: "isDigit c \<Longrightarrow> isNumberByte c"
  by (simp add: isNumberByte_def)

lemma takeWhile_digits: "\<forall>x\<in>set cs. isDigit x \<Longrightarrow> takeWhile isNumberByte cs = cs"
  by (induction cs) (simp_all add: isDigit_isNumberByte)

lemma checkValid_Itoa: "checkValid (Itoa n) = None"
proof -
  consider "n = 0" | "0 < n" | "n < 0" by linarith
  then show ?thesis
  proof cases
    case 1
    then show ?thesis by (simp add: Itoa_def FormatUint_0 checkValid_zero)
  next
    case 2
    then have "0 < nat n" by simp
    from FormatUint_shape [OF this] obtain c cs where
      "FormatUint (nat n) = c # cs" "isDigit19 c" "\<forall>x\<in>set cs. isDigit x" by blast
    with 2 show ?thesis by (simp add: Itoa_def checkValid_nonzero)
  next
    case 3
    then have "0 < nat (- n)" by simp
    from FormatUint_shape [OF this] obtain c cs where
      "FormatUint (nat (- n)) = c # cs" "isDigit19 c" "\<forall>x\<in>set cs. isDigit x" by blast
    with 3 show ?thesis by (simp add: Itoa_def checkValid_negative)
  qed
qed

lemma Itoa_shape:
  "\<exists>c cs. Itoa n = c # cs \<and> (isDigit c \<or> c = CHR ''-'') \<and> (\<forall>x\<in>set cs. isDigit x)"
proof (cases "n < 0")
  case True
  then show ?thesis by (simp add: Itoa_def FormatUint_digits)
next
  case False
  obtain c cs where f: "FormatUint (nat n) = c # cs"
    using FormatUint_nonempty [of "nat n"] by (cases "FormatUint (nat n)") auto
  with FormatUint_digits [of "nat n"] have "isDigit c" "\<forall>x\<in>set cs. isDigit x" by simp_all
  with f False show ?thesis by (simp add: Itoa_def)
qed

lemma number_start:
  assumes "isDigit c \<or> c = CHR ''-''"
  shows "\<not> isSpace c" "c \<noteq> CHR ''{''" "c \<noteq> CHR ''[''" "c \<noteq> CHR ''n''" "c \<noteq> CHR ''t''"
    "c \<noteq> CHR ''f''" "c \<noteq> CHR 0x22" "plainByte c"
proof -
  have "\<not> isSpace c \<and> c \<noteq> CHR ''{'' \<and> c \<noteq> CHR ''['' \<and> c \<noteq> CHR ''n'' \<and> c \<noteq> CHR ''t''
    \<and> c \<noteq> CHR ''f'' \<and> c \<noteq> CHR 0x22 \<and> plainByte c"
  proof (cases "isDigit c")
    case True
    with isDigit_not_special [OF True] isDigit_plainByte [OF True] show ?thesis by simp
  next
    case False
    with assms have "c = CHR ''-''" by simp
    then show ?thesis by (simp add: isSpace_def plainByte_def)
  qed
  then show "\<not> isSpace c" "c \<noteq> CHR ''{''" "c \<noteq> CHR ''[''" "c \<noteq> CHR ''n''" "c \<noteq> CHR ''t''"
    "c \<noteq> CHR ''f''" "c \<noteq> CHR 0x22" "plainByte c"
    by simp_all
qed

lemma Unmarshal_int_Itoa:
  assumes "- (2 ^ 63) \<le> n" and "n < 2 ^ 63"
  shows "Unmarshal_int (Itoa n) v = (None, n)"
proof -
  obtain c cs where s: "Itoa n = c # cs" "isDigit c \<or> c = CHR ''-''" "\<forall>x\<in>set cs. isDigit x"
    using Itoa_shape by blast
  note c = number_start [OF s(2)]
  have d: "dropWhile isSpace (c # cs) = c # cs"
    using c(1) by simp
  have r: "rescanLiteral c cs = c # cs"
    using s(3) by (simp add: rescanLiteral_def takeWhile_digits)
  have p: "ParseInt (c # cs) = (n, None)"
    using ParseInt_Itoa [OF assms] s(1) by simp
  have o: "\<not> OverflowInt n"
    using assms by (simp add: OverflowInt_def intSize_def)
  have v: "checkValid (c # cs) = None"
    using checkValid_Itoa [of n] s(1) by simp
  show ?thesis
    unfolding s(1) Unmarshal_int_def v d
    using c p o by (simp add: r)
qed

lemma Unmarshal_string_Itoa: "Unmarshal_string (Itoa n) \<noteq> None"
proof -
  obtain c cs where s: "Itoa n = c # cs" "isDigit c \<or> c = CHR ''-''" "\<forall>x\<in>set cs. isDigit x"
    using Itoa_shape by blast
  note c = number_start [OF s(2)]
  have d: "dropWhile isSpace (c # cs) = c # cs"
    using c(1) by simp
  have v: "checkValid (c # cs) = None"
    using checkValid_Itoa [of n] s(1) by simp
  show ?thesis
    unfolding s(1) Unmarshal_string_def v d
    using c by simp
qed

lemma Itoa_plain: "\<forall>x\<in>set (Itoa n). plainByte x"
proof -
  obtain c cs where s: "Itoa n = c # cs" "isDigit c \<or> c = CHR ''-''" "\<forall>x\<in>set cs. isDigit x"
    using Itoa_shape by blast
  with number_start(8) [OF s(2)] show ?thesis by (simp add: isDigit_plainByte)
qed

lemma digitByte_eq: "d < 10 \<Longrightarrow> (of_char c :: nat) = 48 + d \<Longrightarrow> digitByte d = c"
proof -
  assume "d < 10" and c: "(of_char c :: nat) = 48 + d"
  then have "(of_char (digitByte d) :: nat) = of_char c"
    by (simp add: digitByte_code)
  then show ?thesis by (simp only: of_char_eq_iff)
qed

lemma digitByte_literals:
  "digitByte 1 = CHR ''1''" "digitByte 2 = CHR ''2''" "digitByte 3 = CHR ''3''"
  "digitByte 4 = CHR ''4''" "digitByte 5 = CHR ''5''" "digitByte 6 = CHR ''6''"
  "digitByte 7 = CHR ''7''" "digitByte 8 = CHR ''8''" "digitByte 9 = CHR ''9''"
  by (rule digitByte_eq; simp)+

lemma Itoa_minus_42: "Itoa (- 42) = ''-42''"
proof -
  have "FormatUint 42 = ''42''"
    by (simp add: FormatUint.simps [of 42] FormatUint.simps [of 4] digitByte_literals)
  then show ?thesis by (simp add: Itoa_def)
qed

lemma digits_2_63:
  "isDigit19 (CHR ''9'')" "\<forall>x\<in>set ''223372036854775808''. isDigit x"
  by (simp_all add: isDigit_def isDigit19_def)

lemma ParseInt_2_63: "ParseInt ''9223372036854775808'' = (9223372036854775807, Some ErrRange)"
  by (simp add: ParseInt_def ParseUint_def isDigit_def maxUint64_def Let_def)

lemma Itoa_2_63: "Itoa 9223372036854775808 = ''9223372036854775808''"
  by (simp add: Itoa_def FormatUint.simps digitByte_literals digitByte_0)

lemma plain_null: "\<forall>x\<in>set ''null''. plainByte x"
  by (simp add: plainByte_def)


subsection \<open>Bare and quoted numbers\<close>

text \<open>
  Claim C1, for the integers that fit Go's \<^verbatim>\<open>int\<close> (64 bits). For every \<open>n\<close>
  from \<open>- 2 ^ 63\<close> to \<open>2 ^ 63 - 1\<close>, decoding the decimal text of \<open>n\<close> and
  decoding the same text between double quotes both succeed and both store \<open>n\<close>,
  whatever the receiver held before.
\<close>

theorem both_renderings_decode:
  assumes "- (2 ^ 63) \<le> n" and "n < 2 ^ 63"
  shows "UnmarshalJSON f (Itoa n) = (None, n)
    \<and> UnmarshalJSON g (CHR 0x22 # Itoa n @ [CHR 0x22]) = (None, n)"
proof -
  have "UnmarshalJSON f (Itoa n) = Unmarshal_int (Itoa n) 0"
    using Unmarshal_string_Itoa by (rule UnmarshalJSON_not_string)
  moreover have "UnmarshalJSON g (CHR 0x22 # Itoa n @ [CHR 0x22]) = Unmarshal_int (Itoa n) 0"
    using Itoa_plain by (rule UnmarshalJSON_quoted_plain)
  ultimately show ?thesis
    by (simp add: Unmarshal_int_Itoa [OF assms])
qed

text \<open>The number \<open>- 42\<close>, bare and quoted, into a receiver that held 7.\<close>

theorem both_renderings_decode_witness:
  "- (2 ^ 63) \<le> (- 42 :: int) \<and> (- 42 :: int) < 2 ^ 63
   \<and> UnmarshalJSON 7 ''-42'' = (None, - 42)
   \<and> UnmarshalJSON 7 (CHR 0x22 # ''-42'' @ [CHR 0x22]) = (None, - 42)"
proof -
  have r: "- (2 ^ 63) \<le> (- 42 :: int)" "(- 42 :: int) < 2 ^ 63"
    by simp_all
  from both_renderings_decode [OF r, of 7 7] show ?thesis
    by (simp add: Itoa_minus_42)
qed

text \<open>
  Claim C1 as stated (for every integer) fails at \<open>2 ^ 63\<close>: the text is a valid JSON
  number, \<^verbatim>\<open>strconv.ParseInt\<close> reports a range error, and the decoder returns an
  \<^verbatim>\<open>UnmarshalTypeError\<close>.
\<close>

theorem decode_out_of_range:
  "Itoa 9223372036854775808 = ''9223372036854775808''
   \<and> UnmarshalJSON 0 (Itoa 9223372036854775808)
     = (Some (UnmarshalTypeError ''number 9223372036854775808''), 0)"
proof -
  have v: "checkValid ''9223372036854775808'' = None"
    using digits_2_63 by (rule checkValid_nonzero)
  have t: "takeWhile isNumberByte ''223372036854775808'' = ''223372036854775808''"
    using digits_2_63(2) by (rule takeWhile_digits)
  have r: "rescanLiteral (CHR ''9'') ''223372036854775808'' = ''9223372036854775808''"
    by (simp only: rescanLiteral_def t)
  have i: "Unmarshal_int ''9223372036854775808'' 0
      = (Some (UnmarshalTypeError ''number 9223372036854775808''), 0)"
    by (simp add: Unmarshal_int_def v isSpace_def r ParseInt_2_63)
  have s: "Unmarshal_string ''9223372036854775808'' \<noteq> None"
    by (simp add: Unmarshal_string_def v isSpace_def)
  from UnmarshalJSON_not_string [OF s] i show ?thesis by (simp add: Itoa_2_63)
qed

text \<open>
  Claim C9. For every quoted JSON string whose contents are a zero followed by one or more
  digits, \<^verbatim>\<open>UnmarshalJSON\<close> returns the syntax error of the JSON scanner (a number
  may not go on after a leading zero) and stores 0, not the value of the digits.
\<close>

theorem quoted_leading_zero_rejected:
  assumes "isDigit d" and "\<forall>x\<in>set ds. isDigit x"
  shows "UnmarshalJSON f (CHR 0x22 # CHR ''0'' # d # ds @ [CHR 0x22])
     = (Some (SyntaxError ''after top-level value''), 0)"
proof -
  have "isDigit (CHR ''0'')" by (simp add: isDigit_def)
  with assms have "\<forall>x\<in>set (CHR ''0'' # d # ds). plainByte x"
    by (simp add: isDigit_plainByte)
  from UnmarshalJSON_quoted_plain [OF this, of f] Unmarshal_int_leading_zero [OF assms(1), of ds 0]
  show ?thesis by simp
qed

text \<open>
  The quoted text \<^verbatim>\<open>042\<close>; \<^verbatim>\<open>strconv.ParseInt\<close> alone would have read it
  as 42.
\<close>

theorem quoted_leading_zero_rejected_witness:
  "isDigit (CHR ''4'') \<and> isDigit (CHR ''2'')
   \<and> UnmarshalJSON 7 (CHR 0x22 # ''042'' @ [CHR 0x22]) = (Some (SyntaxError ''after top-level value''), 0)
   \<and> ParseInt ''042'' = (42, None)"
proof -
  have d: "isDigit (CHR ''4'')" "\<forall>x\<in>set ''2''. isDigit x"
    by (simp_all add: isDigit_def)
  have p: "ParseInt ''042'' = (42, None)"
    by (simp add: ParseInt_def ParseUint_def isDigit_def maxUint64_def Let_def)
  from quoted_leading_zero_rejected [OF d, of 7] d p show ?thesis by simp
qed

text \<open>
  Claim C5 at the input \<^verbatim>\<open>"null"\<close> (the four letters between double quotes): a
  quoted string whose contents are not a number. The contents are handed to
  \<^verbatim>\<open>json.Unmarshal\<close>, for which \<^verbatim>\<open>null\<close> is valid JSON that leaves an
  \<^verbatim>\<open>int\<close> as it is: the call returns \<^verbatim>\<open>nil\<close> and the receiver holds 0.
\<close>

theorem quoted_null_decodes_to_zero:
  "UnmarshalJSON f (CHR 0x22 # ''null'' @ [CHR 0x22]) = (None, 0)"
proof -
  have "Unmarshal_int ''null'' 0 = (None, 0)"
    by (simp add: Unmarshal_int_def checkValid_null isSpace_def)
  with UnmarshalJSON_quoted_plain [OF plain_null, of f] show ?thesis by simp
qed

subsection \<open>The three outcomes of each operation\<close>

lemma CreatePageRule_transport_error:
  "makeRequest api ''POST'' (''/zones/'' @ zoneID @ ''/pagerules'') (Some rule) = Inl e \<Longrightarrow>
     CreatePageRule api zoneID rule = ((PageRule_zero, Some (Wrap e errMakeRequestError)), [MakeRequest ''POST'' (''/zones/'' @ zoneID @ ''/pagerules'') (Some rule)])"
  by (simp add: CreatePageRule_def)

lemma CreatePageRule_decode_error:
  "makeRequest api ''POST'' (''/zones/'' @ zoneID @ ''/pagerules'') (Some rule) = Inr res \<Longrightarrow> Unmarshal_detail api res = (Some e, r) \<Longrightarrow>
     CreatePageRule api zoneID rule = ((PageRule_zero, Some (Wrap e errUnmarshalError)), [MakeRequest ''POST'' (''/zones/'' @ zoneID @ ''/pagerules'') (Some rule), JsonUnmarshal res])"
  by (simp add: CreatePageRule_def)

lemma CreatePageRule_decoded:
  "makeRequest api ''POST'' (''/zones/'' @ zoneID @ ''/pagerules'') (Some rule) = Inr res \<Longrightarrow> Unmarshal_detail api res = (None, r) \<Longrightarrow>
     CreatePageRule api zoneID rule = ((PageRuleDetailResponse.Result r, None), [MakeRequest ''POST'' (''/zones/'' @ zoneID @ ''/pagerules'') (Some rule), JsonUnmarshal res])"
  by (simp add: CreatePageRule_def)

lemma CreatePageRule_requests:
  "requests (snd (CreatePageRule api zoneID rule)) = [(''POST'', ''/zones/'' @ zoneID @ ''/pagerules'', Some rule)]"
proof (cases "makeRequest api ''POST'' (''/zones/'' @ zoneID @ ''/pagerules'') (Some rule)")
  case (Inl e)
  then show ?thesis by (simp add: CreatePageRule_transport_error)
next
  case (Inr res)
  obtain e r where u: "Unmarshal_detail api res = (e, r)"
    by (cases "Unmarshal_detail api res")
  show ?thesis
    by (cases e) (simp_all add: CreatePageRule_decode_error [OF Inr] CreatePageRule_decoded [OF Inr] u)
qed

lemma ListPageRules_transport_error:
  "makeRequest api ''GET'' (''/zones/'' @ zoneID @ ''/pagerules'') (None) = Inl e \<Longrightarrow>
     ListPageRules api zoneID = (([], Some (Wrap e errMakeRequestError)), [MakeRequest ''GET'' (''/zones/'' @ zoneID @ ''/pagerules'') (None)])"
  by (simp add: ListPageRules_def)

lemma ListPageRules_decode_error:
  "makeRequest api ''GET'' (''/zones/'' @ zoneID @ ''/pagerules'') (None) = Inr res \<Longrightarrow> Unmarshal_list api res = (Some e, r) \<Longrightarrow>
     ListPageRules api zoneID = (([], Some (Wrap e errUnmarshalError)), [MakeRequest ''GET'' (''/zones/'' @ zoneID @ ''/pagerules'') (None), JsonUnmarshal res])"
  by (simp add: ListPageRules_def)

lemma ListPageRules_decoded:
  "makeRequest api ''GET'' (''/zones/'' @ zoneID @ ''/pagerules'') (None) = Inr res \<Longrightarrow> Unmarshal_list api res = (None, r) \<Longrightarrow>
     ListPageRules api zoneID = ((PageRulesResponse.Result r, None), [MakeRequest ''GET'' (''/zones/'' @ zoneID @ ''/pagerules'') (None), JsonUnmarshal res])"
  by (simp add: ListPageRules_def)

lemma ListPageRules_requests:
  "requests (snd (ListPageRules api zoneID)) = [(''GET'', ''/zones/'' @ zoneID @ ''/pagerules'', None)]"
proof (cases "makeRequest api ''GET'' (''/zones/'' @ zoneID @ ''/pagerules'') (None)")
  case (Inl e)
  then show ?thesis by (simp add: ListPageRules_transport_error)
next
  case (Inr res)
  obtain e r where u: "Unmarshal_list api res = (e, r)"
    by (cases "Unmarshal_list api res")
  show ?thesis
    by (cases e) (simp_all add: ListPageRules_decode_error [OF Inr] ListPageRules_decoded [OF Inr] u)
qed

lemma GetPageRule_transport_error:
  "makeRequest api ''GET'' (''/zones/'' @ zoneID @ ''/pagerules/'' @ ruleID) (None) = Inl e \<Longrightarrow>
     GetPageRule api zoneID ruleID = ((PageRule_zero, Some (Wrap e errMakeRequestError)), [MakeRequest ''GET'' (''/zones/'' @ zoneID @ ''/pagerules/'' @ ruleID) (None)])"
  by (simp add: GetPageRule_def)

lemma GetPageRule_decode_error:
  "makeRequest api ''GET'' (''/zones/'' @ zoneID @ ''/pagerules/'' @ ruleID) (None) = Inr res \<Longrightarrow> Unmarshal_detail api res = (Some e, r) \<Longrightarrow>
     GetPageRule api zoneID ruleID = ((PageRule_zero, Some (Wrap e errUnmarshalError)), [MakeRequest ''GET'' (''/zones/'' @ zoneID @ ''/pagerules/'' @ ruleID) (None), JsonUnmarshal res])"
  by (simp add: GetPageRule_def)

lemma GetPageRule_decoded:
  "makeRequest api ''GET'' (''/zones/'' @ zoneID @ ''/pagerules/'' @ ruleID) (None) = Inr res \<Longrightarrow> Unmarshal_detail api res = (None, r) \<Longrightarrow>
     GetPageRule api zoneID ruleID = ((PageRuleDetailResponse.Result r, None), [MakeRequest ''GET'' (''/zones/'' @ zoneID @ ''/pagerules/'' @ ruleID) (None), JsonUnmarshal res])"
  by (simp add: GetPageRule_def)

lemma GetPageRule_requests:
  "requests (snd (GetPageRule api zoneID ruleID)) = [(''GET'', ''/zones/'' @ zoneID @ ''/pagerules/'' @ ruleID, None)]"
proof (cases "makeRequest api ''GET'' (''/zones/'' @ zoneID @ ''/pagerules/'' @ ruleID) (None)")
  case (Inl e)
  then show ?thesis by (simp add: GetPageRule_transport_error)
next
  case (Inr res)
  obtain e r where u: "Unmarshal_detail api res = (e, r)"
    by (cases "Unmarshal_detail api res")
  show ?thesis
    by (cases e) (simp_all add: GetPageRule_decode_error [OF Inr] GetPageRule_decoded [OF Inr] u)
qed

lemma ChangePageRule_transport_error:
  "makeRequest api ''PATCH'' (''/zones/'' @ zoneID @ ''/pagerules/'' @ ruleID) (Some rule) = Inl e \<Longrightarrow>
     ChangePageRule api zoneID ruleID rule = ((PageRule_zero, Some (Wrap e errMakeRequestError)), [MakeRequest ''PATCH'' (''/zones/'' @ zoneID @ ''/pagerules/'' @ ruleID) (Some rule)])"
  by (simp add: ChangePageRule_def)

lemma ChangePageRule_decode_error:
  "makeRequest api ''PATCH'' (''/zones/'' @ zoneID @ ''/pagerules/'' @ ruleID) (Some rule) = Inr res \<Longrightarrow> Unmarshal_detail api res = (Some e, r) \<Longrightarrow>
     ChangePageRule api zoneID ruleID rule = ((PageRule_zero, Some (Wrap e errUnmarshalError)), [MakeRequest ''PATCH'' (''/zones/'' @ zoneID @ ''/pagerules/'' @ ruleID) (Some rule), JsonUnmarshal res])"
  by (simp add: ChangePageRule_def)

lemma ChangePageRule_decoded:
  "makeRequest api ''PATCH'' (''/zones/'' @ zoneID @ ''/pagerules/'' @ ruleID) (Some rule) = Inr res \<Longrightarrow> Unmarshal_detail api res = (None, r) \<Longrightarrow>
     ChangePageRule api zoneID ruleID rule = ((PageRuleDetailResponse.Result r, None), [MakeRequest ''PATCH'' (''/zones/'' @ zoneID @ ''/pagerules/'' @ ruleID) (Some rule), JsonUnmarshal res])"
  by (simp add: ChangePageRule_def)

lemma ChangePageRule_requests:
  "requests (snd (ChangePageRule api zoneID ruleID rule)) = [(''PATCH'', ''/zones/'' @ zoneID @ ''/pagerules/'' @ ruleID, Some rule)]"
proof (cases "makeRequest api ''PATCH'' (''/zones/'' @ zoneID @ ''/pagerules/'' @ ruleID) (Some rule)")
  case (Inl e)
  then show ?thesis by (simp add: ChangePageRule_transport_error)
next
  case (Inr res)
  obtain e r where u: "Unmarshal_detail api res = (e, r)"
    by (cases "Unmarshal_detail api res")
  show ?thesis
    by (cases e) (simp_all add: ChangePageRule_decode_error [OF Inr] ChangePageRule_decoded [OF Inr] u)
qed

lemma UpdatePageRule_transport_error:
  "makeRequest api ''PUT'' (''/zones/'' @ zoneID @ ''/pagerules/'' @ ruleID) (Some rule) = Inl e \<Longrightarrow>
     UpdatePageRule api zoneID ruleID rule = ((PageRule_zero, Some (Wrap e errMakeRequestError)), [MakeRequest ''PUT'' (''/zones/'' @ zoneID @ ''/pagerules/'' @ ruleID) (Some rule)])"
  by (simp add: UpdatePageRule_def)

lemma UpdatePageRule_decode_error:
  "makeRequest api ''PUT'' (''/zones/'' @ zoneID @ ''/pagerules/'' @ ruleID) (Some rule) = Inr res \<Longrightarrow> Unmarshal_detail api res = (Some e, r) \<Longrightarrow>
     UpdatePageRule api zoneID ruleID rule = ((PageRule_zero, Some (Wrap e errUnmarshalError)), [MakeRequest ''PUT'' (''/zones/'' @ zoneID @ ''/pagerules/'' @ ruleID) (Some rule), JsonUnmarshal res])"
  by (simp add: UpdatePageRule_def)

lemma UpdatePageRule_decoded:
  "makeRequest api ''PUT'' (''/zones/'' @ zoneID @ ''/pagerules/'' @ ruleID) (Some rule) = Inr res \<Longrightarrow> Unmarshal_detail api res = (None, r) \<Longrightarrow>
     UpdatePageRule api zoneID ruleID rule = ((PageRuleDetailResponse.Result r, None), [MakeRequest ''PUT'' (''/zones/'' @ zoneID @ ''/pagerules/'' @ ruleID) (Some rule), JsonUnmarshal res])"
  by (simp add: UpdatePageRule_def)

lemma UpdatePageRule_requests:
  "requests (snd (UpdatePageRule api zoneID ruleID rule)) = [(''PUT'', ''/zones/'' @ zoneID @ ''/pagerules/'' @ ruleID, Some rule)]"
proof (cases "makeRequest api ''PUT'' (''/zones/'' @ zoneID @ ''/pagerules/'' @ ruleID) (Some rule)")
  case (Inl e)
  then show ?thesis by (simp add: UpdatePageRule_transport_error)
next
  case (Inr res)
  obtain e r where u: "Unmarshal_detail api res = (e, r)"
    by (cases "Unmarshal_detail api res")
  show ?thesis
    by (cases e) (simp_all add: UpdatePageRule_decode_error [OF Inr] UpdatePageRule_decoded [OF Inr] u)
qed

lemma DeletePageRule_transport_error:
  "makeRequest api ''DELETE'' (''/zones/'' @ zoneID @ ''/pagerules/'' @ ruleID) (None) = Inl e \<Longrightarrow>
     DeletePageRule api zoneID ruleID = (Some (Wrap e errMakeRequestError), [MakeRequest ''DELETE'' (''/zones/'' @ zoneID @ ''/pagerules/'' @ ruleID) (None)])"
  by (simp add: DeletePageRule_def)

lemma DeletePageRule_decode_error:
  "makeRequest api ''DELETE'' (''/zones/'' @ zoneID @ ''/pagerules/'' @ ruleID) (None) = Inr res \<Longrightarrow> Unmarshal_detail api res = (Some e, r) \<Longrightarrow>
     DeletePageRule api zoneID ruleID = (Some (Wrap e errUnmarshalError), [MakeRequest ''DELETE'' (''/zones/'' @ zoneID @ ''/pagerules/'' @ ruleID) (None), JsonUnmarshal res])"
  by (simp add: DeletePageRule_def)

lemma DeletePageRule_decoded:
  "makeRequest api ''DELETE'' (''/zones/'' @ zoneID @ ''/pagerules/'' @ ruleID) (None) = Inr res \<Longrightarrow> Unmarshal_detail api res = (None, r) \<Longrightarrow>
     DeletePageRule api zoneID ruleID = (None, [MakeRequest ''DELETE'' (''/zones/'' @ zoneID @ ''/pagerules/'' @ ruleID) (None), JsonUnmarshal res])"
  by (simp add: DeletePageRule_def)

lemma DeletePageRule_requests:
  "requests (snd (DeletePageRule api zoneID ruleID)) = [(''DELETE'', ''/zones/'' @ zoneID @ ''/pagerules/'' @ ruleID, None)]"
proof (cases "makeRequest api ''DELETE'' (''/zones/'' @ zoneID @ ''/pagerules/'' @ ruleID) (None)")
  case (Inl e)
  then show ?thesis by (simp add: DeletePageRule_transport_error)
next
  case (Inr res)
  obtain e r where u: "Unmarshal_detail api res = (e, r)"
    by (cases "Unmarshal_detail api res")
  show ?thesis
    by (cases e) (simp_all add: DeletePageRule_decode_error [OF Inr] DeletePageRule_decoded [OF Inr] u)
qed

lemma CreatePageRule_error_zero:
  "snd (fst (CreatePageRule api zoneID rule)) \<noteq> None \<Longrightarrow> fst (fst (CreatePageRule api zoneID rule)) = PageRule_zero"
proof (cases "makeRequest api ''POST'' (''/zones/'' @ zoneID @ ''/pagerules'') (Some rule)")
  case (Inl e)
  then show ?thesis by (simp add: CreatePageRule_transport_error)
next
  case (Inr res)
  assume a: "snd (fst (CreatePageRule api zoneID rule)) \<noteq> None"
  obtain e r where u: "Unmarshal_detail api res = (e, r)"
    by (cases "Unmarshal_detail api res")
  from a show ?thesis
    by (cases e) (simp_all add: CreatePageRule_decode_error [OF Inr] CreatePageRule_decoded [OF Inr] u)
qed

lemma ListPageRules_error_zero:
  "snd (fst (ListPageRules api zoneID)) \<noteq> None \<Longrightarrow> fst (fst (ListPageRules api zoneID)) = []"
proof (cases "makeRequest api ''GET'' (''/zones/'' @ zoneID @ ''/pagerules'') (None)")
  case (Inl e)
  then show ?thesis by (simp add: ListPageRules_transport_error)
next
  case (Inr res)
  assume a: "snd (fst (ListPageRules api zoneID)) \<noteq> None"
  obtain e r where u: "Unmarshal_list api res = (e, r)"
    by (cases "Unmarshal_list api res")
  from a show ?thesis
    by (cases e) (simp_all add: ListPageRules_decode_error [OF Inr] ListPageRules_decoded [OF Inr] u)
qed

lemma GetPageRule_error_zero:
  "snd (fst (GetPageRule api zoneID ruleID)) \<noteq> None \<Longrightarrow> fst (fst (GetPageRule api zoneID ruleID)) = PageRule_zero"
proof (cases "makeRequest api ''GET'' (''/zones/'' @ zoneID @ ''/pagerules/'' @ ruleID) (None)")
  case (Inl e)
  then show ?thesis by (simp add: GetPageRule_transport_error)
next
  case (Inr res)
  assume a: "snd (fst (GetPageRule api zoneID ruleID)) \<noteq> None"
  obtain e r where u: "Unmarshal_detail api res = (e, r)"
    by (cases "Unmarshal_detail api res")
  from a show ?thesis
    by (cases e) (simp_all add: GetPageRule_decode_error [OF Inr] GetPageRule_decoded [OF Inr] u)
qed

lemma ChangePageRule_error_zero:
  "snd (fst (ChangePageRule api zoneID ruleID rule)) \<noteq> None \<Longrightarrow> fst (fst (ChangePageRule api zoneID ruleID rule)) = PageRule_zero"
proof (cases "makeRequest api ''PATCH'' (''/zones/'' @ zoneID @ ''/pagerules/'' @ ruleID) (Some rule)")
  case (Inl e)
  then show ?thesis by (simp add: ChangePageRule_transport_error)
next
  case (Inr res)
  assume a: "snd (fst (ChangePageRule api zoneID ruleID rule)) \<noteq> None"
  obtain e r where u: "Unmarshal_detail api res = (e, r)"
    by (cases "Unmarshal_detail api res")
  from a show ?thesis
    by (cases e) (simp_all add: ChangePageRule_decode_error [OF Inr] ChangePageRule_decoded [OF Inr] u)
qed

lemma UpdatePageRule_error_zero:
  "snd (fst (UpdatePageRule api zoneID ruleID rule)) \<noteq> None \<Longrightarrow> fst (fst (UpdatePageRule api zoneID ruleID rule)) = PageRule_zero"
proof (cases "makeRequest api ''PUT'' (''/zones/'' @ zoneID @ ''/pagerules/'' @ ruleID) (Some rule)")
  case (Inl e)
  then show ?thesis by (simp add: UpdatePageRule_transport_error)
next
  case (Inr res)
  assume a: "snd (fst (UpdatePageRule api zoneID ruleID rule)) \<noteq> None"
  obtain e r where u: "Unmarshal_detail api res = (e, r)"
    by (cases "Unmarshal_detail api res")
  from a show ?thesis
    by (cases e) (simp_all add: UpdatePageRule_decode_error [OF Inr] UpdatePageRule_decoded [OF Inr] u)
qed

subsection \<open>Requests\<close>

text \<open>
  Claim C7. Whatever the collaborators answer, each operation makes exactly one request, with
  the method, the path and the body of its row: Create \<^verbatim>\<open>POST\<close>s the rule to
  \<^verbatim>\<open>/zones/\<close> + zoneID + \<^verbatim>\<open>/pagerules\<close>, List \<^verbatim>\<open>GET\<close>s the same
  path with no body, and Get, Change, Update and Delete send \<^verbatim>\<open>GET\<close>,
  \<^verbatim>\<open>PATCH\<close>, \<^verbatim>\<open>PUT\<close> and \<^verbatim>\<open>DELETE\<close> to
  \<^verbatim>\<open>/zones/\<close> + zoneID + \<^verbatim>\<open>/pagerules/\<close> + ruleID, Change and Update with
  the rule as body. The path is the plain concatenation of the identifiers: no byte of
  them is escaped.
\<close>

theorem requests_follow_template:
  "requests (snd (CreatePageRule api zoneID rule)) = [(''POST'', ''/zones/'' @ zoneID @ ''/pagerules'', Some rule)]
   \<and> requests (snd (ListPageRules api zoneID)) = [(''GET'', ''/zones/'' @ zoneID @ ''/pagerules'', None)]
   \<and> requests (snd (GetPageRule api zoneID ruleID)) = [(''GET'', ''/zones/'' @ zoneID @ ''/pagerules/'' @ ruleID, None)]
   \<and> requests (snd (ChangePageRule api zoneID ruleID rule)) = [(''PATCH'', ''/zones/'' @ zoneID @ ''/pagerules/'' @ ruleID, Some rule)]
   \<and> requests (snd (UpdatePageRule api zoneID ruleID rule)) = [(''PUT'', ''/zones/'' @ zoneID @ ''/pagerules/'' @ ruleID, Some rule)]
   \<and> requests (snd (DeletePageRule api zoneID ruleID)) = [(''DELETE'', ''/zones/'' @ zoneID @ ''/pagerules/'' @ ruleID, None)]"
  by (intro conjI CreatePageRule_requests ListPageRules_requests GetPageRule_requests ChangePageRule_requests UpdatePageRule_requests DeletePageRule_requests)

subsection \<open>Errors\<close>

lemma error_messages_differ: "errMakeRequestError \<noteq> errUnmarshalError"
  by (simp add: errMakeRequestError_def errUnmarshalError_def)

text \<open>
  Claim C3. When \<^verbatim>\<open>makeRequest\<close> returns an error, the operation returns that error
  wrapped with \<^verbatim>\<open>errMakeRequestError\<close> and does not call \<^verbatim>\<open>json.Unmarshal\<close>.
  When \<^verbatim>\<open>makeRequest\<close> returns bytes and \<^verbatim>\<open>json.Unmarshal\<close> returns an
  error, the operation returns that error wrapped with \<^verbatim>\<open>errUnmarshalError\<close>. The
  two wrapped errors are never equal.
\<close>

theorem two_error_kinds:
  "(makeRequest api ''POST'' (''/zones/'' @ zoneID @ ''/pagerules'') (Some rule) = Inl e \<longrightarrow>
       snd (fst (CreatePageRule api zoneID rule)) = Some (Wrap e errMakeRequestError)
       \<and> decodes (snd (CreatePageRule api zoneID rule)) = [])
   \<and> (makeRequest api ''POST'' (''/zones/'' @ zoneID @ ''/pagerules'') (Some rule) = Inr res \<and> Unmarshal_detail api res = (Some e, r) \<longrightarrow>
       snd (fst (CreatePageRule api zoneID rule)) = Some (Wrap e errUnmarshalError)
       \<and> decodes (snd (CreatePageRule api zoneID rule)) = [res])
   \<and> (makeRequest api ''GET'' (''/zones/'' @ zoneID @ ''/pagerules'') (None) = Inl e \<longrightarrow>
       snd (fst (ListPageRules api zoneID)) = Some (Wrap e errMakeRequestError)
       \<and> decodes (snd (ListPageRules api zoneID)) = [])
   \<and> (makeRequest api ''GET'' (''/zones/'' @ zoneID @ ''/pagerules'') (None) = Inr res \<and> Unmarshal_list api res = (Some e, rs) \<longrightarrow>
       snd (fst (ListPageRules api zoneID)) = Some (Wrap e errUnmarshalError)
       \<and> decodes (snd (ListPageRules api zoneID)) = [res])
   \<and> (makeRequest api ''GET'' (''/zones/'' @ zoneID @ ''/pagerules/'' @ ruleID) (None) = Inl e \<longrightarrow>
       snd (fst (GetPageRule api zoneID ruleID)) = Some (Wrap e errMakeRequestError)
       \<and> decodes (snd (GetPageRule api zoneID ruleID)) = [])
   \<and> (makeRequest api ''GET'' (''/zones/'' @ zoneID @ ''/pagerules/'' @ ruleID) (None) = Inr res \<and> Unmarshal_detail api res = (Some e, r) \<longrightarrow>
       snd (fst (GetPageRule api zoneID ruleID)) = Some (Wrap e errUnmarshalError)
       \<and> decodes (snd (GetPageRule api zoneID ruleID)) = [res])
   \<and> (makeRequest api ''PATCH'' (''/zones/'' @ zoneID @ ''/pagerules/'' @ ruleID) (Some rule) = Inl e \<longrightarrow>
       snd (fst (ChangePageRule api zoneID ruleID rule)) = Some (Wrap e errMakeRequestError)
       \<and> decodes (snd (ChangePageRule api zoneID ruleID rule)) = [])
   \<and> (makeRequest api ''PATCH'' (''/zones/'' @ zoneID @ ''/pagerules/'' @ ruleID) (Some rule) = Inr res \<and> Unmarshal_detail api res = (Some e, r) \<longrightarrow>
       snd (fst (ChangePageRule api zoneID ruleID rule)) = Some (Wrap e errUnmarshalError)
       \<and> decodes (snd (ChangePageRule api zoneID ruleID rule)) = [res])
   \<and> (makeRequest api ''PUT'' (''/zones/'' @ zoneID @ ''/pagerules/'' @ ruleID) (Some rule) = Inl e \<longrightarrow>
       snd (fst (UpdatePageRule api zoneID ruleID rule)) = Some (Wrap e errMakeRequestError)
       \<and> decodes (snd (UpdatePageRule api zoneID ruleID rule)) = [])
   \<and> (makeRequest api ''PUT'' (''/zones/'' @ zoneID @ ''/pagerules/'' @ ruleID) (Some rule) = Inr res \<and> Unmarshal_detail api res = (Some e, r) \<longrightarrow>
       snd (fst (UpdatePageRule api zoneID ruleID rule)) = Some (Wrap e errUnmarshalError)
       \<and> decodes (snd (UpdatePageRule api zoneID ruleID rule)) = [res])
   \<and> (makeRequest api ''DELETE'' (''/zones/'' @ zoneID @ ''/pagerules/'' @ ruleID) (None) = Inl e \<longrightarrow>
       fst (DeletePageRule api zoneID ruleID) = Some (Wrap e errMakeRequestError)
       \<and> decodes (snd (DeletePageRule api zoneID ruleID)) = [])
   \<and> (makeRequest api ''DELETE'' (''/zones/'' @ zoneID @ ''/pagerules/'' @ ruleID) (None) = Inr res \<and> Unmarshal_detail api res = (Some e, r) \<longrightarrow>
       fst (DeletePageRule api zoneID ruleID) = Some (Wrap e errUnmarshalError)
       \<and> decodes (snd (DeletePageRule api zoneID ruleID)) = [res])
   \<and> (\<forall>e1 e2. Wrap e1 errMakeRequestError \<noteq> Wrap e2 errUnmarshalError)"
  by (intro conjI impI allI)
    (simp_all add: error_messages_differ CreatePageRule_transport_error CreatePageRule_decode_error ListPageRules_transport_error ListPageRules_decode_error GetPageRule_transport_error GetPageRule_decode_error ChangePageRule_transport_error ChangePageRule_decode_error UpdatePageRule_transport_error UpdatePageRule_decode_error DeletePageRule_transport_error DeletePageRule_decode_error)

text \<open>The stub that is down and the stub whose answer does not decode, in all six operations.\<close>

theorem two_error_kinds_witness:
  "snd (fst (CreatePageRule stub_down ''z'' PageRule_zero))
     = Some (Wrap (TransportError ''connection refused'') errMakeRequestError)
   \<and> decodes (snd (CreatePageRule stub_down ''z'' PageRule_zero)) = []
   \<and> snd (fst (ListPageRules stub_down ''z''))
     = Some (Wrap (TransportError ''connection refused'') errMakeRequestError)
   \<and> snd (fst (GetPageRule stub_down ''z'' ''r''))
     = Some (Wrap (TransportError ''connection refused'') errMakeRequestError)
   \<and> snd (fst (ChangePageRule stub_down ''z'' ''r'' PageRule_zero))
     = Some (Wrap (TransportError ''connection refused'') errMakeRequestError)
   \<and> snd (fst (UpdatePageRule stub_down ''z'' ''r'' PageRule_zero))
     = Some (Wrap (TransportError ''connection refused'') errMakeRequestError)
   \<and> fst (DeletePageRule stub_down ''z'' ''r'')
     = Some (Wrap (TransportError ''connection refused'') errMakeRequestError)
   \<and> decodes (snd (DeletePageRule stub_down ''z'' ''r'')) = []
   \<and> snd (fst (CreatePageRule stub_garbled ''z'' PageRule_zero))
     = Some (Wrap (SyntaxError ''looking for beginning of value'') errUnmarshalError)
   \<and> snd (fst (ListPageRules stub_garbled ''z''))
     = Some (Wrap (SyntaxError ''looking for beginning of value'') errUnmarshalError)
   \<and> snd (fst (GetPageRule stub_garbled ''z'' ''r''))
     = Some (Wrap (SyntaxError ''looking for beginning of value'') errUnmarshalError)
   \<and> snd (fst (ChangePageRule stub_garbled ''z'' ''r'' PageRule_zero))
     = Some (Wrap (SyntaxError ''looking for beginning of value'') errUnmarshalError)
   \<and> snd (fst (UpdatePageRule stub_garbled ''z'' ''r'' PageRule_zero))
     = Some (Wrap (SyntaxError ''looking for beginning of value'') errUnmarshalError)
   \<and> fst (DeletePageRule stub_garbled ''z'' ''r'')
     = Some (Wrap (SyntaxError ''looking for beginning of value'') errUnmarshalError)"
proof -
  have d: "makeRequest stub_down m u p = Inl (TransportError ''connection refused'')" for m u p
    by (simp add: stub_down_def)
  have g: "makeRequest stub_garbled m u p = Inr ''<html>''"
    "Unmarshal_detail stub_garbled res = (Some (SyntaxError ''looking for beginning of value''), refused_detail)"
    "Unmarshal_list stub_garbled res = (Some (SyntaxError ''looking for beginning of value''), refused_list)"
    for m u p res
    by (simp_all add: stub_garbled_def)
  show ?thesis
    using two_error_kinds [of stub_down "''z''" PageRule_zero "TransportError ''connection refused''"
        _ _ _ "''r''"]
      two_error_kinds [of stub_garbled "''z''" PageRule_zero
        "SyntaxError ''looking for beginning of value''" "''<html>''" refused_detail refused_list "''r''"]
    by (simp add: d g)
qed

text \<open>
  Claim C2. When \<^verbatim>\<open>makeRequest\<close> returns bytes and \<^verbatim>\<open>json.Unmarshal\<close>
  returns \<^verbatim>\<open>nil\<close>, the operation returns the \<^verbatim>\<open>Result\<close> of the decoded
  envelope as it is, with a \<^verbatim>\<open>nil\<close> error (Delete: the \<^verbatim>\<open>nil\<close> error
  alone). The envelope is any envelope: its \<^verbatim>\<open>Success\<close> and \<^verbatim>\<open>Errors\<close>
  fields are not read.
\<close>

theorem decoded_envelope_passes_through:
  "(makeRequest api ''POST'' (''/zones/'' @ zoneID @ ''/pagerules'') (Some rule) = Inr res \<and> Unmarshal_detail api res = (None, r) \<longrightarrow>
       fst (CreatePageRule api zoneID rule) = (PageRuleDetailResponse.Result r, None))
   \<and> (makeRequest api ''GET'' (''/zones/'' @ zoneID @ ''/pagerules'') (None) = Inr res \<and> Unmarshal_list api res = (None, rs) \<longrightarrow>
       fst (ListPageRules api zoneID) = (PageRulesResponse.Result rs, None))
   \<and> (makeRequest api ''GET'' (''/zones/'' @ zoneID @ ''/pagerules/'' @ ruleID) (None) = Inr res \<and> Unmarshal_detail api res = (None, r) \<longrightarrow>
       fst (GetPageRule api zoneID ruleID) = (PageRuleDetailResponse.Result r, None))
   \<and> (makeRequest api ''PATCH'' (''/zones/'' @ zoneID @ ''/pagerules/'' @ ruleID) (Some rule) = Inr res \<and> Unmarshal_detail api res = (None, r) \<longrightarrow>
       fst (ChangePageRule api zoneID ruleID rule) = (PageRuleDetailResponse.Result r, None))
   \<and> (makeRequest api ''PUT'' (''/zones/'' @ zoneID @ ''/pagerules/'' @ ruleID) (Some rule) = Inr res \<and> Unmarshal_detail api res = (None, r) \<longrightarrow>
       fst (UpdatePageRule api zoneID ruleID rule) = (PageRuleDetailResponse.Result r, None))
   \<and> (makeRequest api ''DELETE'' (''/zones/'' @ zoneID @ ''/pagerules/'' @ ruleID) (None) = Inr res \<and> Unmarshal_detail api res = (None, r) \<longrightarrow>
       fst (DeletePageRule api zoneID ruleID) = None)"
  by (intro conjI impI) (simp_all add: CreatePageRule_decoded ListPageRules_decoded GetPageRule_decoded ChangePageRule_decoded UpdatePageRule_decoded DeletePageRule_decoded)

text \<open>An envelope with \<^verbatim>\<open>success: false\<close> and one error, in all six operations.\<close>

theorem decoded_envelope_passes_through_witness:
  "\<not> PageRuleDetailResponse.Success refused_detail
   \<and> PageRuleDetailResponse.Errors refused_detail \<noteq> []
   \<and> \<not> PageRulesResponse.Success refused_list
   \<and> fst (CreatePageRule stub_refused ''z'' PageRule_zero)
       = (PageRuleDetailResponse.Result refused_detail, None)
   \<and> fst (ListPageRules stub_refused ''z'') = (PageRulesResponse.Result refused_list, None)
   \<and> fst (GetPageRule stub_refused ''z'' ''r'') = (PageRuleDetailResponse.Result refused_detail, None)
   \<and> fst (ChangePageRule stub_refused ''z'' ''r'' PageRule_zero)
       = (PageRuleDetailResponse.Result refused_detail, None)
   \<and> fst (UpdatePageRule stub_refused ''z'' ''r'' PageRule_zero)
       = (PageRuleDetailResponse.Result refused_detail, None)
   \<and> fst (DeletePageRule stub_refused ''z'' ''r'') = None"
proof -
  have s: "makeRequest stub_refused m u p = Inr ''{}''"
    "Unmarshal_detail stub_refused res = (None, refused_detail)"
    "Unmarshal_list stub_refused res = (None, refused_list)"
    for m u p res
    by (simp_all add: stub_refused_def)
  have e: "\<not> PageRuleDetailResponse.Success refused_detail"
    "PageRuleDetailResponse.Errors refused_detail \<noteq> []"
    "\<not> PageRulesResponse.Success refused_list"
    by (simp_all add: refused_detail_def refused_list_def)
  show ?thesis
    using decoded_envelope_passes_through [of stub_refused "''z''" PageRule_zero "''{}''"
        refused_detail refused_list "''r''"]
    by (simp add: s e)
qed

text \<open>
  Claim C10. When an operation returns an error, the value beside it is the empty one:
  \<^verbatim>\<open>PageRule{}\<close> for Create, Get, Change and Update, the empty slice for List,
  also when \<^verbatim>\<open>json.Unmarshal\<close> had stored a part of the data before it failed.
\<close>

theorem error_result_is_empty:
  "(snd (fst (CreatePageRule api zoneID rule)) \<noteq> None \<longrightarrow> fst (fst (CreatePageRule api zoneID rule)) = PageRule_zero)
   \<and> (snd (fst (ListPageRules api zoneID)) \<noteq> None \<longrightarrow> fst (fst (ListPageRules api zoneID)) = [])
   \<and> (snd (fst (GetPageRule api zoneID ruleID)) \<noteq> None \<longrightarrow> fst (fst (GetPageRule api zoneID ruleID)) = PageRule_zero)
   \<and> (snd (fst (ChangePageRule api zoneID ruleID rule)) \<noteq> None \<longrightarrow> fst (fst (ChangePageRule api zoneID ruleID rule)) = PageRule_zero)
   \<and> (snd (fst (UpdatePageRule api zoneID ruleID rule)) \<noteq> None \<longrightarrow> fst (fst (UpdatePageRule api zoneID ruleID rule)) = PageRule_zero)"
  by (intro conjI impI) (simp_all add: CreatePageRule_error_zero ListPageRules_error_zero GetPageRule_error_zero ChangePageRule_error_zero UpdatePageRule_error_zero)

text \<open>
  The stub whose answer does not decode hands back an envelope with a rule in it, together
  with the error; the operations return the empty value.
\<close>

theorem error_result_is_empty_witness:
  "snd (fst (CreatePageRule stub_down ''z'' PageRule_zero)) \<noteq> None
   \<and> fst (fst (CreatePageRule stub_down ''z'' PageRule_zero)) = PageRule_zero
   \<and> snd (fst (ListPageRules stub_garbled ''z'')) \<noteq> None
   \<and> fst (fst (ListPageRules stub_garbled ''z'')) = []
   \<and> snd (fst (GetPageRule stub_garbled ''z'' ''r'')) \<noteq> None
   \<and> fst (fst (GetPageRule stub_garbled ''z'' ''r'')) = PageRule_zero
   \<and> snd (fst (ChangePageRule stub_down ''z'' ''r'' PageRule_zero)) \<noteq> None
   \<and> fst (fst (ChangePageRule stub_down ''z'' ''r'' PageRule_zero)) = PageRule_zero
   \<and> snd (fst (UpdatePageRule stub_garbled ''z'' ''r'' PageRule_zero)) \<noteq> None
   \<and> fst (fst (UpdatePageRule stub_garbled ''z'' ''r'' PageRule_zero)) = PageRule_zero"
proof -
  have d: "makeRequest stub_down m u p = Inl (TransportError ''connection refused'')" for m u p
    by (simp add: stub_down_def)
  have g: "makeRequest stub_garbled m u p = Inr ''<html>''"
    "Unmarshal_detail stub_garbled res = (Some (SyntaxError ''looking for beginning of value''), refused_detail)"
    "Unmarshal_list stub_garbled res = (Some (SyntaxError ''looking for beginning of value''), refused_list)"
    for m u p res
    by (simp_all add: stub_garbled_def)
  have 1: "snd (fst (CreatePageRule stub_down ''z'' PageRule_zero)) \<noteq> None"
    by (simp add: CreatePageRule_transport_error [OF d])
  have 2: "snd (fst (ListPageRules stub_garbled ''z'')) \<noteq> None"
    by (simp add: ListPageRules_decode_error [OF g(1) g(3)])
  have 3: "snd (fst (GetPageRule stub_garbled ''z'' ''r'')) \<noteq> None"
    by (simp add: GetPageRule_decode_error [OF g(1) g(2)])
  have 4: "snd (fst (ChangePageRule stub_down ''z'' ''r'' PageRule_zero)) \<noteq> None"
    by (simp add: ChangePageRule_transport_error [OF d])
  have 5: "snd (fst (UpdatePageRule stub_garbled ''z'' ''r'' PageRule_zero)) \<noteq> None"
    by (simp add: UpdatePageRule_decode_error [OF g(1) g(2)])
  show ?thesis
    using error_result_is_empty [of stub_down "''z''" PageRule_zero "''r''"]
      error_result_is_empty [of stub_garbled "''z''" PageRule_zero "''r''"] 1 2 3 4 5
    by simp
qed

subsection \<open>The request body\<close>

text \<open>
  Claim C4 at its own input: a rule with an empty identifier and zero timestamps. The body
  has the keys \<^verbatim>\<open>targets\<close>, \<^verbatim>\<open>actions\<close>, \<^verbatim>\<open>priority\<close> and
  \<^verbatim>\<open>status\<close> and no \<^verbatim>\<open>id\<close>, as the claim says, but it also has
  \<^verbatim>\<open>modified_on\<close> and \<^verbatim>\<open>created_on\<close>: the \<^verbatim>\<open>omitempty\<close> of their
  tags never applies to a struct such as \<^verbatim>\<open>time.Time\<close>.
\<close>

theorem zero_timestamps_are_written:
  "Marshal_keys (rule\<lparr>ID := [], ModifiedOn := Time_zero, CreatedOn := Time_zero\<rparr>)
     = [''targets'', ''actions'', ''priority'', ''status'', ''modified_on'', ''created_on'']"
  by (simp add: Marshal_keys_def PageRule_fields_def)

text \<open>
  For every rule the body has the six keys \<^verbatim>\<open>targets\<close>, \<^verbatim>\<open>actions\<close>,
  \<^verbatim>\<open>priority\<close>, \<^verbatim>\<open>status\<close>, \<^verbatim>\<open>modified_on\<close> and
  \<^verbatim>\<open>created_on\<close>, in this order, after the key \<^verbatim>\<open>id\<close> when the
  identifier is not empty.
\<close>

theorem Marshal_keys_always:
  "Marshal_keys rule =
     (if ID rule = [] then [] else [''id''])
       @ [''targets'', ''actions'', ''priority'', ''status'', ''modified_on'', ''created_on'']"
  by (simp add: Marshal_keys_def PageRule_fields_def)

subsection \<open>Input that is not JSON\<close>

lemma scan_spaces_only:
  "\<forall>x\<in>set cs. isSpace x \<Longrightarrow>
     checkValid_from reset cs = Some (SyntaxError ''unexpected end of JSON input'')"
proof (induction cs)
  case Nil
  show ?case
    by (simp add: reset_def eof_def scan_step_def stateBeginValue_def isSpace_def)
next
  case (Cons c cs)
  then have "scan_step reset c = (scanSkipSpace, reset)"
    by (simp add: reset_def scan_step_def stateBeginValue_def)
  with Cons show ?case by simp
qed

lemma valid_has_value: "checkValid data = None \<Longrightarrow> dropWhile isSpace data \<noteq> []"
proof
  assume v: "checkValid data = None" and "dropWhile isSpace data = []"
  then have "\<forall>x\<in>set data. isSpace x" by simp
  from scan_spaces_only [OF this] v show False by (simp add: checkValid_def)
qed

text \<open>
  When the raw input is not valid JSON, \<^verbatim>\<open>UnmarshalJSON\<close> returns the syntax error
  of the scanner and sets the receiver to 0: the first \<^verbatim>\<open>json.Unmarshal\<close> fails,
  so nothing is unquoted, and the second one fails on the same bytes.
\<close>

theorem malformed_input_rejected:
  assumes "checkValid rawData = Some e"
  shows "UnmarshalJSON f rawData = (Some e, 0)"
proof -
  have "Unmarshal_string rawData \<noteq> None"
    using assms by (simp add: Unmarshal_string_def)
  from UnmarshalJSON_not_string [OF this] assms show ?thesis
    by (simp add: Unmarshal_int_def)
qed

text \<open>The three letters \<^verbatim>\<open>abc\<close>, into a receiver that held 7.\<close>

theorem malformed_input_rejected_witness:
  "checkValid ''abc'' = Some (SyntaxError ''looking for beginning of value'')
   \<and> UnmarshalJSON 7 ''abc'' = (Some (SyntaxError ''looking for beginning of value''), 0)"
  using malformed_input_rejected [OF checkValid_abc, of 7] checkValid_abc by simp

end
